theory Spec2Isabelle
  imports
    Complex_Main
    "HOL-Library.Multiset"
    "HOL-Library.List_Lexorder"
    "HOL-Library.Product_Lexorder"
    "HOL-Library.Sublist"
begin

section \<open>Python values\<close>

text \<open>
  A Python \<open>str\<close> is a sequence of Unicode code points, and \<open>len\<close>, \<open>in\<close>, \<open><\<close> and
  \<open>lower\<close> work on code points: a string is modelled as the list of its code points.
  The string literals of the source are Cyrillic, so they are written out as code points;
  \<open>ascii\<close> embeds an ASCII literal.
\<close>

type_synonym pystr = "nat list"

definition ascii :: "string \<Rightarrow> pystr" where
  "ascii s = map of_char s"

text \<open>
  The numbers a Transaction can hold are the instances of \<open>int\<close> (which include the two
  instances of its subclass \<open>bool\<close>) and of \<open>float\<close>. A float is modelled by the value it
  denotes: a rational, an infinity or NaN. Rounding is not modelled: every rational stands
  for a float, and the conversions that round (\<open>float(s)\<close>, \<open>repr\<close>, \<open>format\<close>) are
  parameters of the functions that call them.
\<close>

datatype pyfloat = NaN | NegInf | Finite rat | PosInf

datatype number = PyInt int | PyBool bool | PyFloat pyfloat

record datetime =
  year :: nat
  month :: nat
  day :: nat
  hour :: nat
  minute :: nat
  second :: nat
  microsecond :: nat

datatype pyval =
    VNone
  | VNum number
  | VStr pystr
  | VDatetime datetime
  | VList "pyval list"

datatype error =
    ValueError pystr
  | FileNotFoundError pystr
  | TypeError pystr
  | KeyError pystr
  | OverflowError pystr
  | AttributeError pystr
  | CsvError pystr

subsection \<open>Comparison of numbers\<close>

text \<open>
  Python compares an \<open>int\<close> with a \<open>float\<close> by their exact values; every comparison with
  NaN is false.
\<close>

fun num_val :: "number \<Rightarrow> pyfloat" where
  "num_val (PyInt n) = Finite (of_int n)"
| "num_val (PyBool b) = Finite (if b then 1 else 0)"
| "num_val (PyFloat x) = x"

fun float_lt :: "pyfloat \<Rightarrow> pyfloat \<Rightarrow> bool" where
  "float_lt NaN y = False"
| "float_lt x NaN = False"
| "float_lt NegInf NegInf = False"
| "float_lt NegInf y = True"
| "float_lt (Finite a) (Finite b) = (a < b)"
| "float_lt (Finite a) PosInf = True"
| "float_lt (Finite a) NegInf = False"
| "float_lt PosInf y = False"

fun float_eq :: "pyfloat \<Rightarrow> pyfloat \<Rightarrow> bool" where
  "float_eq NaN y = False"
| "float_eq x NaN = False"
| "float_eq x y = (x = y)"

definition num_lt :: "number \<Rightarrow> number \<Rightarrow> bool" where
  "num_lt a b = float_lt (num_val a) (num_val b)"

definition num_eq :: "number \<Rightarrow> number \<Rightarrow> bool" where
  "num_eq a b = float_eq (num_val a) (num_val b)"

definition num_le :: "number \<Rightarrow> number \<Rightarrow> bool" where
  "num_le a b = (num_lt a b \<or> num_eq a b)"

definition num_ge :: "number \<Rightarrow> number \<Rightarrow> bool" where
  "num_ge a b = num_le b a"

definition is_nan :: "number \<Rightarrow> bool" where
  "is_nan a = (num_val a = NaN)"

section \<open>Transaction\<close>

subsection \<open>The messages of the source\<close>

definition msg_id :: pystr where
  \<comment> \<open>"ID dolzhen byt' polozhitel'nym tselym chislom"\<close>
  "msg_id = [73, 68, 32, 1076, 1086, 1083, 1078, 1077, 1085, 32, 1073, 1099, 1090, 1100, 32,
     1087, 1086, 1083, 1086, 1078, 1080, 1090, 1077, 1083, 1100, 1085, 1099, 1084, 32,
     1094, 1077, 1083, 1099, 1084, 32, 1095, 1080, 1089, 1083, 1086, 1084]"

definition msg_date_time :: pystr where
  \<comment> \<open>"Data dolzhna byt' ob''ektom datetime"\<close>
  "msg_date_time = [1044, 1072, 1090, 1072, 32, 1076, 1086, 1083, 1078, 1085, 1072, 32,
     1073, 1099, 1090, 1100, 32, 1086, 1073, 1098, 1077, 1082, 1090, 1086, 1084, 32,
     100, 97, 116, 101, 116, 105, 109, 101]"

definition msg_amount :: pystr where
  \<comment> \<open>"Summa dolzhna byt' chislom"\<close>
  "msg_amount = [1057, 1091, 1084, 1084, 1072, 32, 1076, 1086, 1083, 1078, 1085, 1072, 32,
     1073, 1099, 1090, 1100, 32, 1095, 1080, 1089, 1083, 1086, 1084]"

definition msg_description :: pystr where
  \<comment> \<open>"Opisanie dolzhno byt' strokoy"\<close>
  "msg_description = [1054, 1087, 1080, 1089, 1072, 1085, 1080, 1077, 32, 1076, 1086, 1083,
     1078, 1085, 1086, 32, 1073, 1099, 1090, 1100, 32, 1089, 1090, 1088, 1086, 1082, 1086, 1081]"

definition msg_add :: pystr where
  \<comment> \<open>"Mozhno dobavlyat' tol'ko ob''ekty Transaction"\<close>
  "msg_add = [1052, 1086, 1078, 1085, 1086, 32, 1076, 1086, 1073, 1072, 1074, 1083, 1103,
     1090, 1100, 32, 1090, 1086, 1083, 1100, 1082, 1086, 32, 1086, 1073, 1098, 1077, 1082,
     1090, 1099, 32, 84, 114, 97, 110, 115, 97, 99, 116, 105, 111, 110]"

subsection \<open>isinstance\<close>

fun isinstance_int :: "pyval \<Rightarrow> bool" where
  "isinstance_int (VNum (PyInt n)) = True"
| "isinstance_int (VNum (PyBool b)) = True"
| "isinstance_int v = False"

fun isinstance_datetime :: "pyval \<Rightarrow> bool" where
  "isinstance_datetime (VDatetime d) = True"
| "isinstance_datetime v = False"

fun isinstance_int_float :: "pyval \<Rightarrow> bool" where
  "isinstance_int_float (VNum n) = True"
| "isinstance_int_float v = False"

fun isinstance_str :: "pyval \<Rightarrow> bool" where
  "isinstance_str (VStr s) = True"
| "isinstance_str v = False"

text \<open>\<open>value < 0\<close>, which the source evaluates on instances of \<open>int\<close> only.\<close>

fun lt_0 :: "pyval \<Rightarrow> bool" where
  "lt_0 (VNum n) = num_lt n (PyInt 0)"
| "lt_0 v = False"

subsection \<open>\<open>__setattr__\<close> and \<open>__init__\<close>\<close>

text \<open>
  An instance under construction is its attribute dictionary. \<open>__setattr__\<close> either
  raises, leaving the dictionary as it was, or stores the value.
\<close>

type_synonym obj = "string \<rightharpoonup> pyval"

definition setattr :: "string \<Rightarrow> pyval \<Rightarrow> obj \<Rightarrow> error + obj" where
  "setattr name v self =
     (if name = ''id'' \<and> (\<not> isinstance_int v \<or> lt_0 v) then Inl (ValueError msg_id)
      else if name = ''date_time'' \<and> \<not> isinstance_datetime v then Inl (ValueError msg_date_time)
      else if name = ''amount'' \<and> \<not> isinstance_int_float v then Inl (ValueError msg_amount)
      else if name = ''description'' \<and> \<not> isinstance_str v then Inl (ValueError msg_description)
      else Inr (self(name \<mapsto> v)))"

text \<open>
  \<open>__init__\<close> makes the four assignments in order. The result is the exception that
  escaped, if any, and the attribute dictionary at that moment.
\<close>

definition Transaction_init ::
  "pyval \<Rightarrow> pyval \<Rightarrow> pyval \<Rightarrow> pyval \<Rightarrow> obj \<Rightarrow> error option \<times> obj" where
  "Transaction_init v_id v_date_time v_amount v_description self =
     (case setattr ''id'' v_id self of
        Inl e \<Rightarrow> (Some e, self)
      | Inr self1 \<Rightarrow>
     (case setattr ''date_time'' v_date_time self1 of
        Inl e \<Rightarrow> (Some e, self1)
      | Inr self2 \<Rightarrow>
     (case setattr ''amount'' v_amount self2 of
        Inl e \<Rightarrow> (Some e, self2)
      | Inr self3 \<Rightarrow>
     (case setattr ''description'' v_description self3 of
        Inl e \<Rightarrow> (Some e, self3)
      | Inr self4 \<Rightarrow> (None, self4)))))"

text \<open>
  A constructed Transaction, read as a record: the four attributes, with the types that
  \<open>__setattr__\<close> has checked.
\<close>

record transaction =
  id' :: number
  date_time :: datetime
  amount :: number
  description :: pystr

definition as_transaction :: "obj \<Rightarrow> error + transaction" where
  "as_transaction self =
     (case (self ''id'', self ''date_time'', self ''amount'', self ''description'') of
        (Some (VNum i), Some (VDatetime d), Some (VNum a), Some (VStr s)) \<Rightarrow>
          Inr \<lparr>id' = i, date_time = d, amount = a, description = s\<rparr>
      | _ \<Rightarrow> Inl (AttributeError []))"

text \<open>The call \<open>Transaction(id, date_time, amount, description)\<close>.\<close>

definition Transaction :: "pyval \<Rightarrow> pyval \<Rightarrow> pyval \<Rightarrow> pyval \<Rightarrow> error + transaction" where
  "Transaction v_id v_date_time v_amount v_description =
     (case Transaction_init v_id v_date_time v_amount v_description Map.empty of
        (Some e, self) \<Rightarrow> Inl e
      | (None, self) \<Rightarrow> as_transaction self)"

subsection \<open>\<open>TransactionCollection.validate_transaction_data\<close>\<close>

definition validate_transaction_data :: "pyval \<Rightarrow> pyval \<Rightarrow> pyval \<Rightarrow> pyval \<Rightarrow> bool" where
  "validate_transaction_data v_id v_date_time v_amount v_description =
     (if \<not> isinstance_int v_id \<or> lt_0 v_id then False
      else if \<not> isinstance_datetime v_date_time then False
      else if \<not> isinstance_int_float v_amount then False
      else if \<not> isinstance_str v_description then False
      else True)"

section \<open>The library the program calls\<close>

text \<open>
  The conversions between values and text are functions of the Python library, not of the
  program, and several of them round floats or consult Unicode tables. They are
  parameters of the model: the theorems below hold whatever these functions return.
  \<open>now R n\<close> is what the \<open>n\<close>-th call of \<open>datetime.now()\<close> returns.
\<close>

record runtime =
  lower :: "pystr \<Rightarrow> pystr"
  str_of :: "pyval \<Rightarrow> error + pystr"
  format_2f :: "number \<Rightarrow> error + pystr"
  int_of :: "pyval \<Rightarrow> error + int"
  float_of :: "pyval \<Rightarrow> error + pyfloat"
  strptime :: "pyval \<Rightarrow> error + datetime"
  strftime :: "datetime \<Rightarrow> error + pystr"
  now :: "nat \<Rightarrow> datetime"

text \<open>An exception raised by the first computation skips the second.\<close>

definition bind :: "error + 'a \<Rightarrow> ('a \<Rightarrow> error + 'b) \<Rightarrow> error + 'b" where
  "bind r f = (case r of Inl e \<Rightarrow> Inl e | Inr x \<Rightarrow> f x)"

text \<open>
  \<open>Transaction.__str__\<close>: the f-string evaluates its four fields from left to right; the
  format of a \<open>str\<close> with an empty specification is the string itself. The literal starts
  with U+2116, the numero sign.
\<close>

definition Transaction_str :: "runtime \<Rightarrow> transaction \<Rightarrow> error + pystr" where
  "Transaction_str R self =
     bind (str_of R (VNum (id' self))) (\<lambda>s_id.
     bind (str_of R (VDatetime (date_time self))) (\<lambda>s_date_time.
     bind (format_2f R (amount self)) (\<lambda>s_amount.
       Inr ([8470] @ s_id @ ascii '' | '' @ s_date_time @ ascii '' | '' @ s_amount
              @ ascii '' | '' @ description self))))"

section \<open>TransactionManager\<close>

text \<open>
  What a caller can pass to \<open>add_transaction\<close>: an instance of Transaction, or any other
  value.
\<close>

datatype arg = Trans transaction | Other pyval

record TransactionManager =
  transactions :: "transaction list"

text \<open>
  A method that mutates the manager returns the exception that escaped, if any, and the
  manager as the call left it.
\<close>

definition add_transaction ::
  "arg \<Rightarrow> 'a TransactionManager_scheme \<Rightarrow> error option \<times> 'a TransactionManager_scheme" where
  "add_transaction transaction self =
     (case transaction of
        Other v \<Rightarrow> (Some (ValueError msg_add), self)
      | Trans t \<Rightarrow> (None, self\<lparr>transactions := transactions self @ [t]\<rparr>))"

subsection \<open>\<open>list.sort\<close>\<close>

text \<open>
  \<open>list.sort(key=f)\<close> is stable and compares keys with \<open><\<close> only. It is modelled as an
  insertion sort: each element in turn is put after the elements of the sorted prefix
  that it is not less than. Where \<open><\<close> orders the keys totally, every stable sort returns
  this list; CPython sorts a list of fewer than 64 elements by such insertions.
\<close>

fun insort_lt :: "('a \<Rightarrow> 'k) \<Rightarrow> ('k \<Rightarrow> 'k \<Rightarrow> bool) \<Rightarrow> 'a \<Rightarrow> 'a list \<Rightarrow> 'a list" where
  "insort_lt key lt x [] = [x]"
| "insort_lt key lt x (y # ys) =
     (if lt (key x) (key y) then x # y # ys else y # insort_lt key lt x ys)"

definition list_sort :: "('a \<Rightarrow> 'k) \<Rightarrow> ('k \<Rightarrow> 'k \<Rightarrow> bool) \<Rightarrow> 'a list \<Rightarrow> 'a list" where
  "list_sort key lt xs = foldl (\<lambda>sorted x. insort_lt key lt x sorted) [] xs"

definition sort_by_description :: "'a TransactionManager_scheme \<Rightarrow> 'a TransactionManager_scheme" where
  "sort_by_description self =
     self\<lparr>transactions := list_sort description (<) (transactions self)\<rparr>"

definition sort_by_amount :: "'a TransactionManager_scheme \<Rightarrow> 'a TransactionManager_scheme" where
  "sort_by_amount self =
     self\<lparr>transactions := list_sort amount num_lt (transactions self)\<rparr>"

subsection \<open>Generators\<close>

text \<open>
  A generator is modelled by the list of the values it yields. The bodies below assign
  nothing, so the functions return no manager.
\<close>

fun filter_by_amount_loop :: "number \<Rightarrow> transaction list \<Rightarrow> transaction list" where
  "filter_by_amount_loop min_amount [] = []"
| "filter_by_amount_loop min_amount (transaction # rest) =
     (if num_ge (amount transaction) min_amount
      then transaction # filter_by_amount_loop min_amount rest
      else filter_by_amount_loop min_amount rest)"

definition filter_by_amount :: "number \<Rightarrow> 'a TransactionManager_scheme \<Rightarrow> transaction list" where
  "filter_by_amount min_amount self = filter_by_amount_loop min_amount (transactions self)"

section \<open>ExtendedTransactionManager\<close>

text \<open>
  The subclass adds the history. \<open>now_calls\<close> counts the calls of \<open>datetime.now()\<close> made
  so far, which selects the reading of the clock.
\<close>

record ExtendedTransactionManager = TransactionManager +
  history :: "(datetime \<times> pystr \<times> pystr) list"
  now_calls :: nat

text \<open>\<open>str(transaction)\<close> on the argument of \<open>add_transaction\<close>.\<close>

fun py_str :: "runtime \<Rightarrow> arg \<Rightarrow> error + pystr" where
  "py_str R (Trans t) = Transaction_str R t"
| "py_str R (Other v) = str_of R v"

definition ext_add_transaction ::
  "runtime \<Rightarrow> arg \<Rightarrow> 'a ExtendedTransactionManager_scheme
     \<Rightarrow> error option \<times> 'a ExtendedTransactionManager_scheme" where
  "ext_add_transaction R transaction self =
     (case add_transaction transaction self of
        (Some e, self1) \<Rightarrow> (Some e, self1)
      | (None, self1) \<Rightarrow>
          (let t_now = now R (now_calls self1);
               self2 = self1\<lparr>now_calls := Suc (now_calls self1)\<rparr>
           in case py_str R transaction of
                Inl e \<Rightarrow> (Some e, self2)
              | Inr s \<Rightarrow> (None, self2\<lparr>history := history self2 @ [(t_now, ascii ''ADD'', s)]\<rparr>)))"





fun get_history_loop :: "(datetime \<times> pystr \<times> pystr) list \<Rightarrow> (datetime \<times> pystr \<times> pystr) list" where
  "get_history_loop [] = []"
| "get_history_loop (record # rest) = record # get_history_loop rest"

definition get_history ::
  "'a ExtendedTransactionManager_scheme \<Rightarrow> (datetime \<times> pystr \<times> pystr) list" where
  "get_history self = get_history_loop (history self)"

text \<open>The Python class of an exception.\<close>

fun exception_class :: "error \<Rightarrow> string" where
  "exception_class (ValueError m) = ''ValueError''"
| "exception_class (FileNotFoundError m) = ''FileNotFoundError''"
| "exception_class (TypeError m) = ''TypeError''"
| "exception_class (KeyError m) = ''KeyError''"
| "exception_class (OverflowError m) = ''OverflowError''"
| "exception_class (AttributeError m) = ''AttributeError''"
| "exception_class (CsvError m) = ''Error''"

text \<open>
  The numbers other than NaN are totally ordered by \<open><\<close>; \<open>rank\<close> embeds them in a linear
  order. It is used in the proofs about sorting only.
\<close>

fun rank :: "pyfloat \<Rightarrow> int \<times> rat" where
  "rank NegInf = (- 1, 0)"
| "rank (Finite q) = (0, q)"
| "rank PosInf = (1, 0)"
| "rank NaN = (2, 0)"

definition amount_rank :: "number \<Rightarrow> int \<times> rat" where
  "amount_rank a = rank (num_val a)"

section \<open>Files and the csv module\<close>

text \<open>
  A file system maps a file name to the text of the file. \<open>open(filename, mode='r')\<close>
  without a \<open>newline\<close> argument translates the line ends \<open>\r\n\<close> and \<open>\r\<close> to \<open>\n\<close>;
  \<open>open(filename, mode='w', newline='')\<close> stores what is written as it is. The
  decoding is left out: a file holds code points.
\<close>

type_synonym filesystem = "pystr \<rightharpoonup> pystr"

fun universal_newlines :: "pystr \<Rightarrow> pystr" where
  "universal_newlines [] = []"
| "universal_newlines [c] = [if c = 13 then 10 else c]"
| "universal_newlines (c # d # s) =
     (if c = 13 \<and> d = 10 then 10 # universal_newlines s
      else if c = 13 then 10 # universal_newlines (d # s)
      else c # universal_newlines (d # s))"

text \<open>Iterating over a text file yields its lines, each with the \<open>\n\<close> that ends it.\<close>

fun split_lines :: "pystr \<Rightarrow> pystr list" where
  "split_lines [] = []"
| "split_lines (c # s) =
     (if c = 10 then [10] # split_lines s
      else (case split_lines s of [] \<Rightarrow> [[c]] | l # ls \<Rightarrow> (c # l) # ls))"

subsection \<open>\<open>csv.reader\<close>\<close>

text \<open>
  The reader of the default dialect: delimiter \<open>,\<close> (44), quote character \<open>"\<close> (34), a
  quote inside a quoted field written twice, no escape character, not strict. It is the
  state machine of CPython's \<open>_csv.c\<close>, without the three states that only an escape
  character reaches. The end of a line is the input \<open>None\<close>.
\<close>

datatype parser_state =
  START_RECORD | START_FIELD | IN_FIELD | IN_QUOTED_FIELD | QUOTE_IN_QUOTED_FIELD | EAT_CRNL

record reader =
  state :: parser_state
  fields' :: "pystr list"
  field :: pystr

definition parse_reset :: reader where
  "parse_reset = \<lparr>state = START_RECORD, fields' = [], field = []\<rparr>"

definition field_limit :: nat where
  "field_limit = 131072"

definition parse_save_field :: "reader \<Rightarrow> reader" where
  "parse_save_field r = r\<lparr>fields' := fields' r @ [field r], field := []\<rparr>"

definition parse_add_char :: "reader \<Rightarrow> nat \<Rightarrow> error + reader" where
  "parse_add_char r c =
     (if field_limit \<le> length (field r)
      then Inl (CsvError (ascii ''field larger than field limit (131072)''))
      else Inr (r\<lparr>field := field r @ [c]\<rparr>))"

definition start_field :: "reader \<Rightarrow> nat option \<Rightarrow> error + reader" where
  "start_field r c =
     (case c of
        None \<Rightarrow> Inr ((parse_save_field r)\<lparr>state := START_RECORD\<rparr>)
      | Some ch \<Rightarrow>
          if ch = 10 \<or> ch = 13 then Inr ((parse_save_field r)\<lparr>state := EAT_CRNL\<rparr>)
          else if ch = 34 then Inr (r\<lparr>state := IN_QUOTED_FIELD\<rparr>)
          else if ch = 44 then Inr (parse_save_field r)
          else bind (parse_add_char r ch) (\<lambda>r'. Inr (r'\<lparr>state := IN_FIELD\<rparr>)))"

definition parse_process_char :: "reader \<Rightarrow> nat option \<Rightarrow> error + reader" where
  "parse_process_char r c =
     (case state r of
        START_RECORD \<Rightarrow>
          (case c of
             None \<Rightarrow> Inr r
           | Some ch \<Rightarrow>
               if ch = 10 \<or> ch = 13 then Inr (r\<lparr>state := EAT_CRNL\<rparr>)
               else start_field (r\<lparr>state := START_FIELD\<rparr>) c)
      | START_FIELD \<Rightarrow> start_field r c
      | IN_FIELD \<Rightarrow>
          (case c of
             None \<Rightarrow> Inr ((parse_save_field r)\<lparr>state := START_RECORD\<rparr>)
           | Some ch \<Rightarrow>
               if ch = 10 \<or> ch = 13 then Inr ((parse_save_field r)\<lparr>state := EAT_CRNL\<rparr>)
               else if ch = 44 then Inr ((parse_save_field r)\<lparr>state := START_FIELD\<rparr>)
               else parse_add_char r ch)
      | IN_QUOTED_FIELD \<Rightarrow>
          (case c of
             None \<Rightarrow> Inr r
           | Some ch \<Rightarrow>
               if ch = 34 then Inr (r\<lparr>state := QUOTE_IN_QUOTED_FIELD\<rparr>)
               else parse_add_char r ch)
      | QUOTE_IN_QUOTED_FIELD \<Rightarrow>
          (case c of
             None \<Rightarrow> Inr ((parse_save_field r)\<lparr>state := START_RECORD\<rparr>)
           | Some ch \<Rightarrow>
               if ch = 34 then bind (parse_add_char r ch) (\<lambda>r'. Inr (r'\<lparr>state := IN_QUOTED_FIELD\<rparr>))
               else if ch = 44 then Inr ((parse_save_field r)\<lparr>state := START_FIELD\<rparr>)
               else if ch = 10 \<or> ch = 13 then Inr ((parse_save_field r)\<lparr>state := EAT_CRNL\<rparr>)
               else bind (parse_add_char r ch) (\<lambda>r'. Inr (r'\<lparr>state := IN_FIELD\<rparr>)))
      | EAT_CRNL \<Rightarrow>
          (case c of
             None \<Rightarrow> Inr (r\<lparr>state := START_RECORD\<rparr>)
           | Some ch \<Rightarrow>
               if ch = 10 \<or> ch = 13 then Inr r
               else Inl (CsvError (ascii ''new-line character seen in unquoted field''))))"

text \<open>The characters of one line, then the end of the line.\<close>

fun parse_line :: "reader \<Rightarrow> pystr \<Rightarrow> error + reader" where
  "parse_line r [] = parse_process_char r None"
| "parse_line r (c # line) = bind (parse_process_char r (Some c)) (\<lambda>r'. parse_line r' line)"

text \<open>
  The records that the reader yields from the lines of a file, and the exception that
  ends the iteration, if one does. A record is complete when the end of a line leaves the
  machine in \<open>START_RECORD\<close>; the next record starts from \<open>parse_reset\<close>; a quoted field
  that the input leaves open is yielded with what it holds.
\<close>

fun reader_records :: "reader \<Rightarrow> pystr list \<Rightarrow> pystr list list \<times> error option" where
  "reader_records r [] =
     (if field r \<noteq> [] \<or> state r = IN_QUOTED_FIELD
      then ([fields' (parse_save_field r)], None) else ([], None))"
| "reader_records r (line # lines) =
     (case parse_line r line of
        Inl e \<Rightarrow> ([], Some e)
      | Inr r' \<Rightarrow>
          if state r' = START_RECORD
          then (case reader_records parse_reset lines of
                  (records, err) \<Rightarrow> (fields' r' # records, err))
          else reader_records r' lines)"

definition csv_reader :: "pystr list \<Rightarrow> pystr list list \<times> error option" where
  "csv_reader lines = reader_records parse_reset lines"

subsection \<open>\<open>csv.DictReader\<close>\<close>

text \<open>
  A row is a \<open>dict\<close>. Its keys are the field names, and \<open>None\<close> when the record is longer
  than the field names; its values are the fields, \<open>None\<close> for the fields a short record
  lacks, and the list of the fields in excess.
\<close>

type_synonym row = "pyval \<rightharpoonup> pyval"

definition row_dict :: "pystr list \<Rightarrow> pystr list \<Rightarrow> row" where
  "row_dict fieldnames record =
     (let d = fold (\<lambda>(k, v) d. d(VStr k \<mapsto> VStr v)) (zip fieldnames record) Map.empty;
          lf = length fieldnames;
          lr = length record
      in if lf < lr then d(VNone \<mapsto> VList (map VStr (drop lf record)))
         else if lr < lf then fold (\<lambda>key d. d(VStr key \<mapsto> VNone)) (drop lr fieldnames) d
         else d)"

text \<open>
  The first record gives the field names; the records that are empty lists (blank lines)
  are skipped.
\<close>

definition DictReader :: "pystr list \<Rightarrow> row list \<times> error option" where
  "DictReader lines =
     (case csv_reader lines of
        ([], err) \<Rightarrow> ([], err)
      | (fieldnames # records, err) \<Rightarrow>
          (map (row_dict fieldnames) (filter (\<lambda>record. record \<noteq> []) records), err))"

definition getitem :: "row \<Rightarrow> pystr \<Rightarrow> error + pyval" where
  "getitem d key = (case d (VStr key) of None \<Rightarrow> Inl (KeyError key) | Some v \<Rightarrow> Inr v)"

subsection \<open>\<open>csv.DictWriter\<close>\<close>

text \<open>
  The writer quotes a field that holds the delimiter, the quote character or a character
  of the line terminator \<open>\r\n\<close>, and writes a quote twice.
\<close>

definition needs_quotes :: "pystr \<Rightarrow> bool" where
  "needs_quotes s = (\<exists>c \<in> set s. c = 44 \<or> c = 34 \<or> c = 13 \<or> c = 10)"

definition join_append :: "pystr \<Rightarrow> pystr" where
  "join_append s =
     (if needs_quotes s
      then [34] @ concat (map (\<lambda>c. if c = 34 then [34, 34] else [c]) s) @ [34]
      else s)"

fun join_fields :: "pystr list \<Rightarrow> pystr" where
  "join_fields [] = []"
| "join_fields [f] = join_append f"
| "join_fields (f # g # fs) = join_append f @ [44] @ join_fields (g # fs)"

text \<open>A record of one empty field is written as two quotes.\<close>

definition record_line :: "pystr list \<Rightarrow> pystr" where
  "record_line fs = (if fs = [[]] then [34, 34] else join_fields fs) @ [13, 10]"

text \<open>The text of a value in a record: a string is itself, \<open>None\<close> is empty, else \<open>str\<close>.\<close>

fun field_text :: "runtime \<Rightarrow> pyval \<Rightarrow> error + pystr" where
  "field_text R (VStr s) = Inr s"
| "field_text R VNone = Inr []"
| "field_text R v = str_of R v"

fun fields_text :: "runtime \<Rightarrow> pyval list \<Rightarrow> error + pystr list" where
  "fields_text R [] = Inr []"
| "fields_text R (v # vs) =
     bind (field_text R v) (\<lambda>s. bind (fields_text R vs) (\<lambda>ss. Inr (s # ss)))"

definition writerow :: "runtime \<Rightarrow> pyval list \<Rightarrow> error + pystr" where
  "writerow R values = bind (fields_text R values) (\<lambda>fs. Inr (record_line fs))"

section \<open>Loading and saving\<close>

subsection \<open>The column names and the message of the source\<close>

definition col_id :: pystr where
  \<comment> \<open>the numero sign\<close>
  "col_id = [8470]"

definition col_date_time :: pystr where
  \<comment> \<open>"data i vremya"\<close>
  "col_date_time = [1076, 1072, 1090, 1072, 32, 1080, 32, 1074, 1088, 1077, 1084, 1103]"

definition col_amount :: pystr where
  \<comment> \<open>"summa"\<close>
  "col_amount = [1089, 1091, 1084, 1084, 1072]"

definition col_description :: pystr where
  \<comment> \<open>"opisanie tranzaktsii"\<close>
  "col_description = [1086, 1087, 1080, 1089, 1072, 1085, 1080, 1077, 32, 1090, 1088, 1072,
     1085, 1079, 1072, 1082, 1094, 1080, 1080]"

definition msg_not_found :: "pystr \<Rightarrow> pystr" where
  \<comment> \<open>"Fayl " filename " ne nayden!"\<close>
  "msg_not_found filename =
     [1060, 1072, 1081, 1083, 32] @ filename @ [32, 1085, 1077, 32, 1085, 1072, 1081, 1076, 1077, 1085, 33]"

subsection \<open>\<open>load_from_csv\<close>\<close>

text \<open>
  The expression that builds the Transaction of a row. Python evaluates the arguments
  from left to right, then calls the constructor.
\<close>

definition row_transaction :: "runtime \<Rightarrow> row \<Rightarrow> error + transaction" where
  "row_transaction R row =
     bind (getitem row col_id) (\<lambda>v_id. bind (int_of R v_id) (\<lambda>i.
     bind (getitem row col_date_time) (\<lambda>v_date_time. bind (strptime R v_date_time) (\<lambda>d.
     bind (getitem row col_amount) (\<lambda>v_amount. bind (float_of R v_amount) (\<lambda>a.
     bind (getitem row col_description) (\<lambda>s.
       Transaction (VNum (PyInt i)) (VDatetime d) (VNum (PyFloat a)) s)))))))"

text \<open>
  The loop over the rows. \<open>self.add_transaction\<close> is the method of the class of \<open>self\<close>:
  the model takes it as the argument \<open>add\<close>.
\<close>

fun load_rows ::
  "runtime \<Rightarrow> (arg \<Rightarrow> 's \<Rightarrow> error option \<times> 's) \<Rightarrow> row list \<Rightarrow> 's \<Rightarrow> error option \<times> 's" where
  "load_rows R add [] self = (None, self)"
| "load_rows R add (row # rows) self =
     (case row_transaction R row of
        Inl e \<Rightarrow> (Some e, self)
      | Inr transaction \<Rightarrow>
          (case add (Trans transaction) self of
             (Some e, self1) \<Rightarrow> (Some e, self1)
           | (None, self1) \<Rightarrow> load_rows R add rows self1))"

text \<open>\<open>except FileNotFoundError: raise FileNotFoundError(...)\<close> around the whole body.\<close>

fun except_FileNotFoundError :: "pystr \<Rightarrow> error \<Rightarrow> error" where
  "except_FileNotFoundError filename (FileNotFoundError m) = FileNotFoundError (msg_not_found filename)"
| "except_FileNotFoundError filename e = e"

definition load_from_csv ::
  "runtime \<Rightarrow> (arg \<Rightarrow> 's \<Rightarrow> error option \<times> 's) \<Rightarrow> filesystem \<Rightarrow> pystr \<Rightarrow> 's \<Rightarrow> error option \<times> 's" where
  "load_from_csv R add fs filename self =
     (case fs filename of
        None \<Rightarrow> (Some (FileNotFoundError (msg_not_found filename)), self)
      | Some text \<Rightarrow>
          (case DictReader (split_lines (universal_newlines text)) of
             (rows, err) \<Rightarrow>
               (case load_rows R add rows self of
                  (Some e, self1) \<Rightarrow> (Some (except_FileNotFoundError filename e), self1)
                | (None, self1) \<Rightarrow> (map_option (except_FileNotFoundError filename) err, self1))))"

text \<open>The method as each class has it.\<close>

definition TransactionManager_load_from_csv ::
  "runtime \<Rightarrow> filesystem \<Rightarrow> pystr \<Rightarrow> 'a TransactionManager_scheme
     \<Rightarrow> error option \<times> 'a TransactionManager_scheme" where
  "TransactionManager_load_from_csv R = load_from_csv R add_transaction"

definition ExtendedTransactionManager_load_from_csv ::
  "runtime \<Rightarrow> filesystem \<Rightarrow> pystr \<Rightarrow> 'a ExtendedTransactionManager_scheme
     \<Rightarrow> error option \<times> 'a ExtendedTransactionManager_scheme" where
  "ExtendedTransactionManager_load_from_csv R = load_from_csv R (ext_add_transaction R)"

subsection \<open>\<open>save_to_csv\<close>\<close>

text \<open>
  The file is opened, which empties it, and the header and the rows are written one after
  the other; an exception leaves in the file what was written before it. The dictionary
  of a row is built before \<open>writerow\<close> is called, so \<open>strftime\<close> runs first.
\<close>

definition fieldnames :: "pystr list" where
  "fieldnames = [col_id, col_date_time, col_amount, col_description]"

definition save_row :: "runtime \<Rightarrow> transaction \<Rightarrow> error + pystr" where
  "save_row R t =
     bind (strftime R (date_time t)) (\<lambda>s_date_time.
       writerow R [VNum (id' t), VStr s_date_time, VNum (amount t), VStr (description t)])"

fun save_rows :: "runtime \<Rightarrow> transaction list \<Rightarrow> pystr \<Rightarrow> error option \<times> pystr" where
  "save_rows R [] written = (None, written)"
| "save_rows R (t # ts) written =
     (case save_row R t of
        Inl e \<Rightarrow> (Some e, written)
      | Inr line \<Rightarrow> save_rows R ts (written @ line))"

definition save_to_csv ::
  "runtime \<Rightarrow> filesystem \<Rightarrow> pystr \<Rightarrow> 'a TransactionManager_scheme \<Rightarrow> error option \<times> filesystem" where
  "save_to_csv R fs filename self =
     (case save_rows R (transactions self) (record_line fieldnames) of
        (err, written) \<Rightarrow> (err, fs(filename \<mapsto> written)))"

section \<open>A runtime for the examples\<close>

text \<open>
  To evaluate the program on concrete inputs the library functions need values. The
  definitions of this section give them on plain text: ASCII digits, signs and spaces,
  and letters of the Basic Latin, Latin-1 Supplement and Cyrillic (U+0400 to U+045F)
  blocks. There they return what CPython 3.11 on Linux returns, with two reservations:
  the messages of the library's exceptions are abridged, and a float denotes the decimal
  it was read from (\<open>float\<close> does not round). Outside plain text they refuse input that
  Python accepts (digits of other scripts, underscores in numbers, exponents). No
  theorem about the program depends on this section; only examples do.
\<close>

subsection \<open>\<open>str.lower\<close>\<close>

definition lower_cp :: "nat \<Rightarrow> nat" where
  "lower_cp c =
     (if 65 \<le> c \<and> c \<le> 90 then c + 32
      else if 192 \<le> c \<and> c \<le> 222 \<and> c \<noteq> 215 then c + 32
      else if 1040 \<le> c \<and> c \<le> 1071 then c + 32
      else if 1024 \<le> c \<and> c \<le> 1039 then c + 80
      else c)"

definition py_lower :: "pystr \<Rightarrow> pystr" where
  "py_lower s = map lower_cp s"

subsection \<open>Numbers to text\<close>

function digits :: "nat \<Rightarrow> pystr" where
  "digits n = (if n < 10 then [48 + n] else digits (n div 10) @ [48 + n mod 10])"
  by pat_completeness auto
termination
  by (relation "measure (\<lambda>n. n)") auto

declare digits.simps [simp del]

definition str_int :: "int \<Rightarrow> pystr" where
  "str_int n = (if n < 0 then 45 # digits (nat (- n)) else digits (nat n))"

text \<open>\<open>'%0wd' % n\<close>: the decimal digits of \<open>n\<close>, padded with zeros to the width \<open>w\<close>.\<close>

definition zero_pad :: "nat \<Rightarrow> nat \<Rightarrow> pystr" where
  "zero_pad w n = replicate (w - length (digits n)) 48 @ digits n"

text \<open>The digits after the decimal point of \<open>r\<close>, with \<open>0 \<le> r < 1\<close>, up to \<open>n\<close> of them.\<close>

fun frac_digits :: "nat \<Rightarrow> rat \<Rightarrow> pystr" where
  "frac_digits 0 r = []"
| "frac_digits (Suc n) r =
     (if r = 0 then []
      else (48 + nat \<lfloor>r * 10\<rfloor>) # frac_digits n (r * 10 - of_int \<lfloor>r * 10\<rfloor>))"

text \<open>
  \<open>repr\<close> of a float: the shortest decimal that reads back as the same float, which for
  a decimal of at most 15 significant digits between \<open>1e-4\<close> and \<open>1e16\<close> is that decimal.
\<close>

definition str_float :: "pyfloat \<Rightarrow> pystr" where
  "str_float x =
     (case x of
        NaN \<Rightarrow> ascii ''nan''
      | PosInf \<Rightarrow> ascii ''inf''
      | NegInf \<Rightarrow> ascii ''-inf''
      | Finite r \<Rightarrow>
          (if r < 0 then [45] else []) @ digits (nat \<lfloor>\<bar>r\<bar>\<rfloor>) @ [46] @
          (if \<bar>r\<bar> = of_int \<lfloor>\<bar>r\<bar>\<rfloor> then [48] else frac_digits 17 (\<bar>r\<bar> - of_int \<lfloor>\<bar>r\<bar>\<rfloor>)))"

text \<open>
  \<open>str\<close> of a datetime is \<open>isoformat(sep=' ')\<close>: the microseconds appear when they are
  not zero.
\<close>

definition str_datetime :: "datetime \<Rightarrow> pystr" where
  "str_datetime d =
     zero_pad 4 (year d) @ [45] @ zero_pad 2 (month d) @ [45] @ zero_pad 2 (day d) @ [32] @
     zero_pad 2 (hour d) @ [58] @ zero_pad 2 (minute d) @ [58] @ zero_pad 2 (second d) @
     (if microsecond d = 0 then [] else [46] @ zero_pad 6 (microsecond d))"

fun py_str_of :: "pyval \<Rightarrow> error + pystr" where
  "py_str_of VNone = Inr (ascii ''None'')"
| "py_str_of (VNum (PyInt n)) = Inr (str_int n)"
| "py_str_of (VNum (PyBool b)) = Inr (if b then ascii ''True'' else ascii ''False'')"
| "py_str_of (VNum (PyFloat x)) = Inr (str_float x)"
| "py_str_of (VStr s) = Inr s"
| "py_str_of (VDatetime d) = Inr (str_datetime d)"
| "py_str_of (VList vs) = Inl (TypeError (ascii ''str of a list is outside this runtime''))"

text \<open>
  \<open>strftime('%Y-%m-%d %H:%M:%S')\<close>: the C library writes the year without padding.
\<close>

definition py_strftime :: "datetime \<Rightarrow> error + pystr" where
  "py_strftime d =
     Inr (digits (year d) @ [45] @ zero_pad 2 (month d) @ [45] @ zero_pad 2 (day d) @ [32] @
          zero_pad 2 (hour d) @ [58] @ zero_pad 2 (minute d) @ [58] @ zero_pad 2 (second d))"

subsection \<open>\<open>format(x, '.2f')\<close>\<close>

text \<open>
  The format rounds the exact value to two decimals, a tie to the even neighbour, and
  keeps the sign of a negative value that rounds to zero. An \<open>int\<close> is converted to a
  float first: it is rounded to 53 significant bits, and the conversion overflows when
  the result has more than 1024 bits.
\<close>

definition round_half_even :: "rat \<Rightarrow> int" where
  "round_half_even x =
     (let f = \<lfloor>x\<rfloor>; d = x - of_int f
      in if d < 1 / 2 then f else if 1 / 2 < d then f + 1 else if even f then f else f + 1)"

definition fixed2 :: "rat \<Rightarrow> pystr" where
  "fixed2 r =
     (let q = nat (round_half_even (\<bar>r\<bar> * 100))
      in (if r < 0 then [45] else []) @ digits (q div 100) @ [46] @ zero_pad 2 (q mod 100))"

function bit_length :: "nat \<Rightarrow> nat" where
  "bit_length n = (if n = 0 then 0 else Suc (bit_length (n div 2)))"
  by pat_completeness auto
termination
  by (relation "measure (\<lambda>n. n)") auto

declare bit_length.simps [simp del]

definition float_of_int :: "int \<Rightarrow> error + rat" where
  "float_of_int n =
     (let a = nat \<bar>n\<bar>; shift = bit_length a - 53;
          q = a div 2 ^ shift; rest = a mod 2 ^ shift;
          q' = (if 2 * rest < 2 ^ shift then q
                else if 2 ^ shift < 2 * rest then q + 1
                else if even q then q else q + 1);
          v = q' * 2 ^ shift
      in if 1024 < bit_length v then Inl (OverflowError (ascii ''int too large to convert to float''))
         else Inr (if n < 0 then - of_nat v else of_nat v))"

fun py_format_2f :: "number \<Rightarrow> error + pystr" where
  "py_format_2f (PyInt n) = bind (float_of_int n) (\<lambda>r. Inr (fixed2 r))"
| "py_format_2f (PyBool b) = Inr (fixed2 (if b then 1 else 0))"
| "py_format_2f (PyFloat NaN) = Inr (ascii ''nan'')"
| "py_format_2f (PyFloat PosInf) = Inr (ascii ''inf'')"
| "py_format_2f (PyFloat NegInf) = Inr (ascii ''-inf'')"
| "py_format_2f (PyFloat (Finite r)) = Inr (fixed2 r)"

subsection \<open>Text to numbers\<close>

definition is_digit :: "nat \<Rightarrow> bool" where
  "is_digit c = (48 \<le> c \<and> c \<le> 57)"

definition is_space :: "nat \<Rightarrow> bool" where
  "is_space c = (c = 32 \<or> (9 \<le> c \<and> c \<le> 13))"

definition strip :: "pystr \<Rightarrow> pystr" where
  "strip s = rev (dropWhile is_space (rev (dropWhile is_space s)))"

definition nat_of_digits :: "pystr \<Rightarrow> nat" where
  "nat_of_digits s = foldl (\<lambda>a c. 10 * a + (c - 48)) 0 s"

definition all_digits :: "pystr \<Rightarrow> bool" where
  "all_digits s = (s \<noteq> [] \<and> list_all is_digit s)"

text \<open>The sign of a number and the text after it.\<close>

fun sign_and_rest :: "pystr \<Rightarrow> bool \<times> pystr" where
  "sign_and_rest [] = (False, [])"
| "sign_and_rest (c # s) = (if c = 45 then (True, s) else if c = 43 then (False, s) else (False, c # s))"

definition int_of_text :: "pystr \<Rightarrow> error + int" where
  "int_of_text s =
     (case sign_and_rest (strip s) of
        (neg, ds) \<Rightarrow>
          if all_digits ds then Inr (if neg then - int (nat_of_digits ds) else int (nat_of_digits ds))
          else Inl (ValueError (ascii ''invalid literal for int() with base 10'')))"

fun py_int :: "pyval \<Rightarrow> error + int" where
  "py_int (VStr s) = int_of_text s"
| "py_int (VNum (PyInt n)) = Inr n"
| "py_int (VNum (PyBool b)) = Inr (if b then 1 else 0)"
| "py_int (VNum (PyFloat (Finite r))) = Inr (if r < 0 then - \<lfloor>- r\<rfloor> else \<lfloor>r\<rfloor>)"
| "py_int (VNum (PyFloat NaN)) = Inl (ValueError (ascii ''cannot convert float NaN to integer''))"
| "py_int (VNum (PyFloat x)) = Inl (OverflowError (ascii ''cannot convert float infinity to integer''))"
| "py_int v = Inl (TypeError (ascii ''int() argument must be a string, a bytes-like object or a real number''))"

definition float_of_text :: "pystr \<Rightarrow> error + pyfloat" where
  "float_of_text s =
     (case sign_and_rest (strip s) of
        (neg, body) \<Rightarrow>
          let word = py_lower body;
              ip = takeWhile is_digit body;
              rest = dropWhile is_digit body;
              fp = (case rest of [] \<Rightarrow> [] | c # r \<Rightarrow> r);
              point = (rest \<noteq> [] \<and> hd rest = 46)
          in if word = ascii ''nan'' then Inr NaN
             else if word = ascii ''inf'' \<or> word = ascii ''infinity''
               then Inr (if neg then NegInf else PosInf)
             else if (rest = [] \<and> ip \<noteq> []) \<or>
                     (point \<and> list_all is_digit fp \<and> (ip \<noteq> [] \<or> fp \<noteq> []))
               then let v = of_nat (nat_of_digits ip) + of_nat (nat_of_digits fp) / 10 ^ length fp
                    in Inr (Finite (if neg then - v else v))
             else Inl (ValueError (ascii ''could not convert string to float'')))"

fun py_float :: "pyval \<Rightarrow> error + pyfloat" where
  "py_float (VStr s) = float_of_text s"
| "py_float (VNum (PyInt n)) = bind (float_of_int n) (\<lambda>r. Inr (Finite r))"
| "py_float (VNum (PyBool b)) = Inr (Finite (if b then 1 else 0))"
| "py_float (VNum (PyFloat x)) = Inr x"
| "py_float v = Inl (TypeError (ascii ''float() argument must be a string or a real number''))"

subsection \<open>\<open>datetime.strptime(s, '%Y-%m-%d %H:%M:%S')\<close>\<close>

text \<open>
  The format is matched as a regular expression whose alternatives are tried in order.
  \<open>match_field alts s\<close> is the first alternative that matches a prefix of \<open>s\<close>: the number it
  reads and the text after it. Each field is followed by a character that is not a
  digit, or by the end of the text, so a later alternative never succeeds where the first
  match is followed by the wrong character.
\<close>

type_synonym alternative = "(nat \<Rightarrow> bool) list"

fun matches :: "alternative \<Rightarrow> pystr \<Rightarrow> bool" where
  "matches [] s = True"
| "matches (p # ps) [] = False"
| "matches (p # ps) (c # s) = (p c \<and> matches ps s)"

fun match_field :: "alternative list \<Rightarrow> pystr \<Rightarrow> (nat \<times> pystr) option" where
  "match_field [] s = None"
| "match_field (a # alts) s =
     (if matches a s
      then Some (nat_of_digits (dropWhile (\<lambda>c. c = 32) (take (length a) s)), drop (length a) s)
      else match_field alts s)"

definition between :: "nat \<Rightarrow> nat \<Rightarrow> nat \<Rightarrow> bool" where
  "between lo hi c = (lo \<le> c \<and> c \<le> hi)"

definition alts_Y :: "alternative list" where
  "alts_Y = [[is_digit, is_digit, is_digit, is_digit]]"

definition alts_m :: "alternative list" where
  "alts_m = [[(=) 49, between 48 50], [(=) 48, between 49 57], [between 49 57]]"

definition alts_d :: "alternative list" where
  "alts_d = [[(=) 51, between 48 49], [between 49 50, is_digit], [(=) 48, between 49 57],
     [between 49 57], [(=) 32, between 49 57]]"

definition alts_H :: "alternative list" where
  "alts_H = [[(=) 50, between 48 51], [between 48 49, is_digit], [is_digit]]"

definition alts_M :: "alternative list" where
  "alts_M = [[between 48 53, is_digit], [is_digit]]"

definition alts_S :: "alternative list" where
  "alts_S = [[(=) 54, between 48 49], [between 48 53, is_digit], [is_digit]]"

text \<open>A literal character of the format; a space of the format matches a run of spaces.\<close>

fun literal :: "nat \<Rightarrow> pystr \<Rightarrow> pystr option" where
  "literal c [] = None"
| "literal c (x # s) = (if x = c then Some s else None)"

definition spaces :: "pystr \<Rightarrow> pystr option" where
  "spaces s = (if s \<noteq> [] \<and> is_space (hd s) then Some (dropWhile is_space s) else None)"

definition obind :: "'a option \<Rightarrow> ('a \<Rightarrow> 'b option) \<Rightarrow> 'b option" where
  "obind x f = (case x of None \<Rightarrow> None | Some y \<Rightarrow> f y)"

definition match_format :: "pystr \<Rightarrow> datetime option" where
  "match_format s0 =
     obind (match_field alts_Y s0) (\<lambda>(Y, s1). obind (literal 45 s1) (\<lambda>s2.
     obind (match_field alts_m s2) (\<lambda>(m, s3). obind (literal 45 s3) (\<lambda>s4.
     obind (match_field alts_d s4) (\<lambda>(d, s5). obind (spaces s5) (\<lambda>s6.
     obind (match_field alts_H s6) (\<lambda>(H, s7). obind (literal 58 s7) (\<lambda>s8.
     obind (match_field alts_M s8) (\<lambda>(M, s9). obind (literal 58 s9) (\<lambda>s10.
     obind (match_field alts_S s10) (\<lambda>(S, s11).
       if s11 = [] then
         Some \<lparr>year = Y, month = m, day = d, hour = H, minute = M, second = S, microsecond = 0\<rparr>
       else None)))))))))))"

definition is_leap :: "nat \<Rightarrow> bool" where
  "is_leap y = (y mod 4 = 0 \<and> (y mod 100 \<noteq> 0 \<or> y mod 400 = 0))"

definition days_in_month :: "nat \<Rightarrow> nat \<Rightarrow> nat" where
  "days_in_month y m =
     (if m = 2 then (if is_leap y then 29 else 28)
      else if m = 4 \<or> m = 6 \<or> m = 9 \<or> m = 11 then 30 else 31)"

definition strptime_text :: "pystr \<Rightarrow> error + datetime" where
  "strptime_text s =
     (case match_format s of
        None \<Rightarrow> Inl (ValueError (ascii ''time data does not match format''))
      | Some d \<Rightarrow>
          if 1 \<le> year d \<and> day d \<le> days_in_month (year d) (month d) \<and> second d \<le> 59 then Inr d
          else Inl (ValueError (ascii ''value out of range'')))"

fun py_strptime :: "pyval \<Rightarrow> error + datetime" where
  "py_strptime (VStr s) = strptime_text s"
| "py_strptime v = Inl (TypeError (ascii ''strptime() argument 1 must be str''))"

subsection \<open>The runtime\<close>

definition cpython :: "(nat \<Rightarrow> datetime) \<Rightarrow> runtime" where
  "cpython clock =
     \<lparr>lower = py_lower, str_of = py_str_of, format_2f = py_format_2f, int_of = py_int,
      float_of = py_float, strptime = py_strptime, strftime = py_strftime, now = clock\<rparr>"

text \<open>
  The history entry that loading the row \<open>row\<close> appends when the clock has been read
  \<open>n\<close> times before: used to state what a load leaves in the history.
\<close>

definition loaded_entry :: "runtime \<Rightarrow> nat \<Rightarrow> row \<Rightarrow> datetime \<times> pystr \<times> pystr" where
  "loaded_entry R n row =
     (now R n, ascii ''ADD'', projr (Transaction_str R (projr (row_transaction R row))))"

section \<open>Values used in the examples\<close>

definition dt0 :: datetime where
  "dt0 = \<lparr>year = 2024, month = 3, day = 1, hour = 14, minute = 30, second = 0, microsecond = 0\<rparr>"

definition t1 :: transaction where
  "t1 = \<lparr>id' = PyInt 1, date_time = dt0, amount = PyInt 5, description = ascii ''invoice ref-22''\<rparr>"
definition t2 :: transaction where
  "t2 = \<lparr>id' = PyInt 2, date_time = dt0, amount = PyFloat (Finite (5/2)), description = ascii ''REFUND''\<rparr>"
definition t3 :: transaction where
  "t3 = \<lparr>id' = PyInt 3, date_time = dt0, amount = PyInt (- 7), description = ascii ''payment''\<rparr>"

definition m0 :: TransactionManager where "m0 = \<lparr>transactions = [t1, t2, t3]\<rparr>"

definition t_nan :: transaction where
  "t_nan = \<lparr>id' = PyInt 4, date_time = dt0, amount = PyFloat NaN, description = ascii ''nan''\<rparr>"

definition m_nan :: TransactionManager where "m_nan = \<lparr>transactions = [t_nan, t3]\<rparr>"

definition clock0 :: "nat \<Rightarrow> datetime" where
  "clock0 n = dt0\<lparr>second := n mod 60\<rparr>"

definition e0 :: ExtendedTransactionManager where
  "e0 = \<lparr>transactions = [t1, t2, t3], history = [], now_calls = 0\<rparr>"

definition name0 :: pystr where "name0 = ascii ''data.csv''"

definition text0 :: pystr where
  "text0 = join_fields fieldnames @ [13, 10] @
     ascii ''1,2024-03-01 14:30:00,5,invoice ref-22'' @ [13, 10] @
     ascii ''x,2024-03-01 14:30:00,5,bad'' @ [13, 10] @
     ascii ''3,2024-03-01 14:30:00,7.5,payment'' @ [13, 10]"

definition fs0 :: filesystem where "fs0 = [name0 \<mapsto> text0]"

definition t_row1 :: transaction where
  "t_row1 = \<lparr>id' = PyInt 1, date_time = dt0, amount = PyFloat (Finite 5),
     description = ascii ''invoice ref-22''\<rparr>"

definition text_ok :: pystr where
  "text_ok = join_fields fieldnames @ [13, 10] @
     ascii ''1,2024-03-01 14:30:00,5,invoice ref-22'' @ [13, 10] @
     ascii ''3,2024-03-01 14:30:00,7.5,payment'' @ [13, 10]"

definition t_row3 :: transaction where
  "t_row3 = \<lparr>id' = PyInt 3, date_time = dt0, amount = PyFloat (Finite (15 / 2)),
     description = ascii ''payment''\<rparr>"

definition t_cr :: transaction where
  "t_cr = \<lparr>id' = PyInt 1, date_time = dt0, amount = PyInt 5, description = [97, 13, 98]\<rparr>"

definition text_cr :: pystr where
  "text_cr = join_fields fieldnames @ [13, 10] @
     ascii ''1,2024-03-01 14:30:00,5,'' @ [34, 97, 13, 98, 34] @ [13, 10]"

section \<open>Properties\<close>

subsection \<open>Construction and validation\<close>

lemma Transaction_init_eq:
  "Transaction_init i d a s self =
     (if \<not> isinstance_int i \<or> lt_0 i then (Some (ValueError msg_id), self)
      else if \<not> isinstance_datetime d then (Some (ValueError msg_date_time), self(''id'' \<mapsto> i))
      else if \<not> isinstance_int_float a then
        (Some (ValueError msg_amount), self(''id'' \<mapsto> i, ''date_time'' \<mapsto> d))
      else if \<not> isinstance_str s then
        (Some (ValueError msg_description), self(''id'' \<mapsto> i, ''date_time'' \<mapsto> d, ''amount'' \<mapsto> a))
      else (None, self(''id'' \<mapsto> i, ''date_time'' \<mapsto> d, ''amount'' \<mapsto> a, ''description'' \<mapsto> s)))"
  by (simp add: Transaction_init_def setattr_def)

lemma isinstance_int_cases:
  "isinstance_int v \<Longrightarrow> (\<exists>n. v = VNum n)"
  by (cases v rule: isinstance_int.cases) auto

lemma isinstance_datetime_cases: "isinstance_datetime v \<Longrightarrow> (\<exists>d. v = VDatetime d)"
  by (cases v) auto

lemma isinstance_int_float_cases: "isinstance_int_float v \<Longrightarrow> (\<exists>n. v = VNum n)"
  by (cases v) auto

lemma isinstance_str_cases: "isinstance_str v \<Longrightarrow> (\<exists>s. v = VStr s)"
  by (cases v) auto

lemma Transaction_valid:
  assumes "isinstance_int i" "\<not> lt_0 i" "isinstance_datetime d" "isinstance_int_float a" "isinstance_str s"
  shows "\<exists>n dt m str. i = VNum n \<and> d = VDatetime dt \<and> a = VNum m \<and> s = VStr str \<and>
          Transaction i d a s = Inr \<lparr>id' = n, date_time = dt, amount = m, description = str\<rparr>"
proof -
  obtain n where n: "i = VNum n" using assms(1) isinstance_int_cases by blast
  obtain dt where dt: "d = VDatetime dt" using assms(3) isinstance_datetime_cases by blast
  obtain m where m: "a = VNum m" using assms(4) isinstance_int_float_cases by blast
  obtain str where str: "s = VStr str" using assms(5) isinstance_str_cases by blast
  note eqs = n dt m str
  have "Transaction i d a s = Inr \<lparr>id' = n, date_time = dt, amount = m, description = str\<rparr>"
    using assms unfolding Transaction_def Transaction_init_eq
    by (simp add: eqs as_transaction_def)
  with eqs show ?thesis by blast
qed

lemma Transaction_bad_id:
  "\<not> isinstance_int i \<or> lt_0 i \<Longrightarrow> Transaction i d a s = Inl (ValueError msg_id)"
  unfolding Transaction_def Transaction_init_eq by auto

lemma Transaction_bad_date_time:
  "isinstance_int i \<Longrightarrow> \<not> lt_0 i \<Longrightarrow> \<not> isinstance_datetime d \<Longrightarrow>
   Transaction i d a s = Inl (ValueError msg_date_time)"
  unfolding Transaction_def Transaction_init_eq by simp

lemma Transaction_bad_amount:
  "isinstance_int i \<Longrightarrow> \<not> lt_0 i \<Longrightarrow> isinstance_datetime d \<Longrightarrow> \<not> isinstance_int_float a \<Longrightarrow>
   Transaction i d a s = Inl (ValueError msg_amount)"
  unfolding Transaction_def Transaction_init_eq by simp

lemma Transaction_bad_description:
  "isinstance_int i \<Longrightarrow> \<not> lt_0 i \<Longrightarrow> isinstance_datetime d \<Longrightarrow> isinstance_int_float a \<Longrightarrow>
   \<not> isinstance_str s \<Longrightarrow> Transaction i d a s = Inl (ValueError msg_description)"
  unfolding Transaction_def Transaction_init_eq by simp

lemma Transaction_invalid:
  "\<not> (isinstance_int i \<and> \<not> lt_0 i \<and> isinstance_datetime d \<and> isinstance_int_float a \<and>
      isinstance_str s) \<Longrightarrow> \<exists>e. Transaction i d a s = Inl e"
  using Transaction_bad_id [of i d a s] Transaction_bad_date_time [of i d a s]
    Transaction_bad_amount [of i d a s] Transaction_bad_description [of i d a s]
  by blast

lemma msgs_distinct: "distinct [msg_id, msg_date_time, msg_amount, msg_description, msg_add]"
  by (simp add: msg_id_def msg_date_time_def msg_amount_def msg_description_def msg_add_def)

text \<open>
  Claim C1. Whatever the four values, when at least one of them is invalid the construction
  raises the \<open>ValueError\<close> whose message names the first invalid field, in the order id,
  date_time, amount, description; at that moment the attributes before that field are set
  to the values given and no other attribute is set. The four messages differ.
\<close>

theorem Transaction_fails_at_first_invalid_field:
  "(\<not> isinstance_int i \<or> lt_0 i \<longrightarrow>
      Transaction i d a s = Inl (ValueError msg_id) \<and>
      Transaction_init i d a s Map.empty = (Some (ValueError msg_id), Map.empty)) \<and>
   (isinstance_int i \<and> \<not> lt_0 i \<and> \<not> isinstance_datetime d \<longrightarrow>
      Transaction i d a s = Inl (ValueError msg_date_time) \<and>
      Transaction_init i d a s Map.empty = (Some (ValueError msg_date_time), [''id'' \<mapsto> i])) \<and>
   (isinstance_int i \<and> \<not> lt_0 i \<and> isinstance_datetime d \<and> \<not> isinstance_int_float a \<longrightarrow>
      Transaction i d a s = Inl (ValueError msg_amount) \<and>
      Transaction_init i d a s Map.empty =
        (Some (ValueError msg_amount), [''id'' \<mapsto> i, ''date_time'' \<mapsto> d])) \<and>
   (isinstance_int i \<and> \<not> lt_0 i \<and> isinstance_datetime d \<and> isinstance_int_float a \<and>
    \<not> isinstance_str s \<longrightarrow>
      Transaction i d a s = Inl (ValueError msg_description) \<and>
      Transaction_init i d a s Map.empty =
        (Some (ValueError msg_description),
         [''id'' \<mapsto> i, ''date_time'' \<mapsto> d, ''amount'' \<mapsto> a])) \<and>
   distinct [msg_id, msg_date_time, msg_amount, msg_description]"
  using msgs_distinct Transaction_bad_id [of i d a s] Transaction_bad_date_time [of i d a s]
    Transaction_bad_amount [of i d a s] Transaction_bad_description [of i d a s]
  by (simp add: Transaction_init_eq)

theorem Transaction_fails_at_first_invalid_field_witness:
  "Transaction (VNum (PyInt (- 1))) (VDatetime dt0) (VNum (PyInt 5)) (VStr []) = Inl (ValueError msg_id) \<and>
   Transaction_init (VNum (PyInt (- 1))) (VDatetime dt0) (VNum (PyInt 5)) (VStr []) Map.empty
     = (Some (ValueError msg_id), Map.empty) \<and>
   Transaction (VNum (PyInt 1)) VNone (VNum (PyInt 5)) (VStr []) = Inl (ValueError msg_date_time) \<and>
   Transaction_init (VNum (PyInt 1)) VNone (VNum (PyInt 5)) (VStr []) Map.empty
     = (Some (ValueError msg_date_time), [''id'' \<mapsto> VNum (PyInt 1)]) \<and>
   Transaction (VNum (PyInt 1)) (VDatetime dt0) (VStr []) (VStr []) = Inl (ValueError msg_amount) \<and>
   Transaction_init (VNum (PyInt 1)) (VDatetime dt0) (VStr []) (VStr []) Map.empty
     = (Some (ValueError msg_amount), [''id'' \<mapsto> VNum (PyInt 1), ''date_time'' \<mapsto> VDatetime dt0]) \<and>
   Transaction (VNum (PyInt 1)) (VDatetime dt0) (VNum (PyInt 5)) VNone = Inl (ValueError msg_description) \<and>
   Transaction_init (VNum (PyInt 1)) (VDatetime dt0) (VNum (PyInt 5)) VNone Map.empty
     = (Some (ValueError msg_description),
        [''id'' \<mapsto> VNum (PyInt 1), ''date_time'' \<mapsto> VDatetime dt0, ''amount'' \<mapsto> VNum (PyInt 5)])"
  using Transaction_fails_at_first_invalid_field [of "VNum (PyInt (- 1))" "VDatetime dt0" "VNum (PyInt 5)" "VStr []"]
    Transaction_fails_at_first_invalid_field [of "VNum (PyInt 1)" VNone "VNum (PyInt 5)" "VStr []"]
    Transaction_fails_at_first_invalid_field [of "VNum (PyInt 1)" "VDatetime dt0" "VStr []" "VStr []"]
    Transaction_fails_at_first_invalid_field [of "VNum (PyInt 1)" "VDatetime dt0" "VNum (PyInt 5)" VNone]
  by (simp add: num_lt_def)

text \<open>
  Claim C9. \<open>validate_transaction_data\<close> returns \<open>True\<close> on exactly the quadruples from
  which the construction of a Transaction succeeds.
\<close>

theorem validate_transaction_data_iff_Transaction:
  "validate_transaction_data i d a s \<longleftrightarrow> (\<exists>t. Transaction i d a s = Inr t)"
proof (cases "isinstance_int i \<and> \<not> lt_0 i \<and> isinstance_datetime d \<and> isinstance_int_float a \<and> isinstance_str s")
  case True
  then have "\<exists>t. Transaction i d a s = Inr t"
    using Transaction_valid [of i d a s] by blast
  moreover have "validate_transaction_data i d a s"
    using True by (simp add: validate_transaction_data_def)
  ultimately show ?thesis by simp
next
  case False
  then have "\<exists>e. Transaction i d a s = Inl e"
    using Transaction_invalid [of i d a s] by blast
  then have "\<not> (\<exists>t. Transaction i d a s = Inr t)" by auto
  moreover have "\<not> validate_transaction_data i d a s"
    using False by (auto simp: validate_transaction_data_def)
  ultimately show ?thesis by simp
qed

theorem validate_transaction_data_iff_Transaction_witness:
  "validate_transaction_data (VNum (PyInt 1)) (VDatetime dt0) (VNum (PyInt 5)) (VStr []) \<and>
   (\<exists>t. Transaction (VNum (PyInt 1)) (VDatetime dt0) (VNum (PyInt 5)) (VStr []) = Inr t) \<and>
   \<not> validate_transaction_data (VNum (PyInt (- 1))) (VDatetime dt0) (VNum (PyInt 5)) (VStr []) \<and>
   \<not> (\<exists>t. Transaction (VNum (PyInt (- 1))) (VDatetime dt0) (VNum (PyInt 5)) (VStr []) = Inr t)"
  using validate_transaction_data_iff_Transaction [of "VNum (PyInt 1)" "VDatetime dt0" "VNum (PyInt 5)" "VStr []"]
    validate_transaction_data_iff_Transaction [of "VNum (PyInt (- 1))" "VDatetime dt0" "VNum (PyInt 5)" "VStr []"]
  by (simp add: validate_transaction_data_def num_lt_def)

subsection \<open>Adding to the collection\<close>

text \<open>
  Claim C8, as stated, asks for an error of another kind than the validation error. The
  source raises \<open>ValueError\<close> in \<open>add_transaction\<close> as it does in \<open>__setattr__\<close>:
  the two failures have the same class and differ by their message only.
\<close>

theorem add_transaction_same_class_counterexample:
  "fst (add_transaction (Other VNone) m0) = Some (ValueError msg_add) \<and>
   Transaction (VNum (PyInt (- 1))) (VDatetime dt0) (VNum (PyInt 5)) (VStr []) = Inl (ValueError msg_id) \<and>
   exception_class (ValueError msg_add) = exception_class (ValueError msg_id)"
  by (simp add: add_transaction_def Transaction_bad_id num_lt_def)

text \<open>
  Claim C8, amended. Given a value that is not a Transaction, \<open>add_transaction\<close> raises
  a \<open>ValueError\<close> with a message of its own, which none of the four validation messages
  equals, and leaves the manager as it was; given a Transaction it appends it at the end,
  and the elements that were there keep their places.
\<close>

theorem add_transaction_appends_or_raises:
  "add_transaction (Other v) self = (Some (ValueError msg_add), self) \<and>
   exception_class (ValueError msg_add) = ''ValueError'' \<and>
   msg_add \<notin> {msg_id, msg_date_time, msg_amount, msg_description} \<and>
   add_transaction (Trans t) self = (None, self\<lparr>transactions := transactions self @ [t]\<rparr>) \<and>
   take (length (transactions self)) (transactions (snd (add_transaction (Trans t) self)))
     = transactions self"
  using msgs_distinct by (auto simp: add_transaction_def)

theorem add_transaction_appends_or_raises_witness:
  "add_transaction (Other (VStr [])) m0 = (Some (ValueError msg_add), m0) \<and>
   add_transaction (Trans t1) m0 = (None, \<lparr>transactions = [t1, t2, t3, t1]\<rparr>)"
  using add_transaction_appends_or_raises [of "VStr []" m0 t1]
  by (simp add: m0_def)

subsection \<open>Filtering by amount\<close>

lemma filter_by_amount_loop_eq:
  "filter_by_amount_loop m ts = filter (\<lambda>t. num_ge (amount t) m) ts"
  by (induction ts) simp_all

text \<open>
  Claim C6. \<open>filter_by_amount m\<close> yields the transactions whose amount is at least \<open>m\<close>,
  all of them and no other, in the order of the collection; it yields nothing when no
  amount reaches \<open>m\<close>. The generator assigns nothing, so the collection is as it was.
\<close>

theorem filter_by_amount_exact:
  "filter_by_amount m self = filter (\<lambda>t. num_ge (amount t) m) (transactions self) \<and>
   subseq (filter_by_amount m self) (transactions self) \<and>
   ((\<forall>t \<in> set (transactions self). \<not> num_ge (amount t) m) \<longrightarrow> filter_by_amount m self = [])"
  by (simp add: filter_by_amount_def filter_by_amount_loop_eq)

theorem filter_by_amount_exact_witness:
  "filter_by_amount (PyFloat (Finite (5/2))) m0 = [t1, t2] \<and>
   \<not> num_ge (amount t1) (PyInt 100) \<and> \<not> num_ge (amount t2) (PyInt 100) \<and>
   \<not> num_ge (amount t3) (PyInt 100) \<and>
   filter_by_amount (PyInt 100) m0 = []"
  using filter_by_amount_exact [of "PyFloat (Finite (5/2))" m0] filter_by_amount_exact [of "PyInt 100" m0]
  by (simp add: m0_def t1_def t2_def t3_def num_ge_def num_le_def num_lt_def num_eq_def)

subsection \<open>Sorting\<close>

lemma float_lt_rank: "x \<noteq> NaN \<Longrightarrow> y \<noteq> NaN \<Longrightarrow> float_lt x y = (rank x < rank y)"
  by (cases x; cases y) (simp_all add: less_prod_def)

lemma float_eq_rank: "x \<noteq> NaN \<Longrightarrow> y \<noteq> NaN \<Longrightarrow> float_eq x y = (rank x = rank y)"
  by (cases x; cases y) simp_all

lemma mset_insort_lt: "mset (insort_lt f lt x ys) = add_mset x (mset ys)"
  by (induction ys) simp_all

lemma set_insort_lt: "set (insort_lt f lt x ys) = insert x (set ys)"
  by (induction ys) auto

lemma list_sort_snoc: "list_sort f lt (xs @ [x]) = insort_lt f lt x (list_sort f lt xs)"
  by (simp add: list_sort_def)

lemma list_sort_Nil: "list_sort f lt [] = []"
  by (simp add: list_sort_def)

lemma mset_list_sort: "mset (list_sort f lt xs) = mset xs"
  by (induction xs rule: rev_induct) (simp_all add: list_sort_Nil list_sort_snoc mset_insort_lt)

lemma set_list_sort: "set (list_sort f lt xs) = set xs"
  using mset_list_sort [of f lt xs] by (metis set_mset_mset)

lemma sorted_insort_lt:
  fixes r :: "'k \<Rightarrow> 'o::linorder"
  assumes ord: "\<And>a b. P a \<Longrightarrow> P b \<Longrightarrow> lt a b = (r a < r b)"
    and "P (f x)" and "\<forall>y \<in> set ys. P (f y)" and "sorted (map (\<lambda>y. r (f y)) ys)"
  shows "sorted (map (\<lambda>y. r (f y)) (insort_lt f lt x ys))"
  using assms(3,4)
proof (induction ys)
  case Nil
  then show ?case by simp
next
  case (Cons y ys)
  show ?case
  proof (cases "lt (f x) (f y)")
    case True
    then have "r (f x) < r (f y)" using ord [of "f x" "f y"] assms(2) Cons.prems(1) by simp
    with Cons.prems(2) True show ?thesis by auto
  next
    case False
    then have "r (f y) \<le> r (f x)" using ord [of "f x" "f y"] assms(2) Cons.prems(1) by simp
    moreover have "sorted (map (\<lambda>y. r (f y)) (insort_lt f lt x ys))"
      using Cons by simp
    ultimately show ?thesis using False Cons.prems(2) by (auto simp: set_insort_lt)
  qed
qed

lemma filter_insort_lt:
  fixes r :: "'k \<Rightarrow> 'o::linorder"
  assumes ord: "\<And>a b. P a \<Longrightarrow> P b \<Longrightarrow> lt a b = (r a < r b)"
    and "P (f x)" and "\<forall>y \<in> set ys. P (f y)" and "sorted (map (\<lambda>y. r (f y)) ys)"
  shows "filter (\<lambda>y. r (f y) = k) (insort_lt f lt x ys) =
         (if r (f x) = k then filter (\<lambda>y. r (f y) = k) ys @ [x] else filter (\<lambda>y. r (f y) = k) ys)"
  using assms(3,4)
proof (induction ys)
  case Nil
  then show ?case by simp
next
  case (Cons y ys)
  show ?case
  proof (cases "lt (f x) (f y)")
    case True
    then have lt: "r (f x) < r (f y)" using ord [of "f x" "f y"] assms(2) Cons.prems(1) by simp
    have "\<forall>z \<in> set (y # ys). r (f x) < r (f z)"
      using lt Cons.prems(2) by auto
    then have "r (f x) = k \<Longrightarrow> filter (\<lambda>y. r (f y) = k) (y # ys) = []"
      by (auto simp: filter_empty_conv)
    with True show ?thesis by auto
  next
    case False
    then show ?thesis using Cons by simp
  qed
qed

lemma sorted_list_sort:
  fixes r :: "'k \<Rightarrow> 'o::linorder"
  assumes ord: "\<And>a b. P a \<Longrightarrow> P b \<Longrightarrow> lt a b = (r a < r b)"
    and "\<forall>y \<in> set xs. P (f y)"
  shows "sorted (map (\<lambda>y. r (f y)) (list_sort f lt xs))"
  using assms(2)
proof (induction xs rule: rev_induct)
  case Nil
  then show ?case by (simp add: list_sort_Nil)
next
  case (snoc x xs)
  then have "sorted (map (\<lambda>y. r (f y)) (list_sort f lt xs))" by simp
  moreover have "\<forall>y \<in> set (list_sort f lt xs). P (f y)"
    using snoc.prems by (simp add: set_list_sort)
  moreover have "P (f x)" using snoc.prems by simp
  ultimately show ?case
    unfolding list_sort_snoc using sorted_insort_lt [of P lt r f x] ord by blast
qed

lemma filter_list_sort:
  fixes r :: "'k \<Rightarrow> 'o::linorder"
  assumes ord: "\<And>a b. P a \<Longrightarrow> P b \<Longrightarrow> lt a b = (r a < r b)"
    and "\<forall>y \<in> set xs. P (f y)"
  shows "filter (\<lambda>y. r (f y) = k) (list_sort f lt xs) = filter (\<lambda>y. r (f y) = k) xs"
  using assms(2)
proof (induction xs rule: rev_induct)
  case Nil
  then show ?case by (simp add: list_sort_Nil)
next
  case (snoc x xs)
  have s: "sorted (map (\<lambda>y. r (f y)) (list_sort f lt xs))"
    using sorted_list_sort [of P lt r xs f] ord snoc.prems by simp
  have p: "\<forall>y \<in> set (list_sort f lt xs). P (f y)"
    using snoc.prems by (simp add: set_list_sort)
  have x: "P (f x)" using snoc.prems by simp
  have "filter (\<lambda>y. r (f y) = k) (insort_lt f lt x (list_sort f lt xs)) =
        (if r (f x) = k then filter (\<lambda>y. r (f y) = k) (list_sort f lt xs) @ [x]
         else filter (\<lambda>y. r (f y) = k) (list_sort f lt xs))"
    using filter_insort_lt [of P lt r f x "list_sort f lt xs" k] ord x p s by blast
  then show ?case using snoc by (simp add: list_sort_snoc)
qed

lemma insort_lt_last:
  fixes r :: "'k \<Rightarrow> 'o::linorder"
  assumes ord: "\<And>a b. P a \<Longrightarrow> P b \<Longrightarrow> lt a b = (r a < r b)"
    and "P (f x)" and "\<forall>y \<in> set ys. P (f y)" and "\<forall>y \<in> set ys. r (f y) \<le> r (f x)"
  shows "insort_lt f lt x ys = ys @ [x]"
  using assms(3,4)
proof (induction ys)
  case Nil
  then show ?case by simp
next
  case (Cons y ys)
  have "\<not> lt (f x) (f y)" using ord [of "f x" "f y"] assms(2) Cons.prems by auto
  then show ?case using Cons by simp
qed

lemma list_sort_sorted_id:
  fixes r :: "'k \<Rightarrow> 'o::linorder"
  assumes ord: "\<And>a b. P a \<Longrightarrow> P b \<Longrightarrow> lt a b = (r a < r b)"
    and "\<forall>y \<in> set xs. P (f y)" and "sorted (map (\<lambda>y. r (f y)) xs)"
  shows "list_sort f lt xs = xs"
  using assms(2,3)
proof (induction xs rule: rev_induct)
  case Nil
  then show ?case by (simp add: list_sort_Nil)
next
  case (snoc x xs)
  have srt: "sorted (map (\<lambda>y. r (f y)) xs)" and le: "\<forall>y \<in> set xs. r (f y) \<le> r (f x)"
    using snoc.prems(2) by (auto simp: sorted_append)
  have "list_sort f lt xs = xs" using snoc srt by simp
  moreover have "insort_lt f lt x xs = xs @ [x]"
    using insort_lt_last [of P lt r f x xs] ord snoc.prems(1) le by simp
  ultimately show ?case by (simp add: list_sort_snoc)
qed

lemma num_lt_rank:
  "\<not> is_nan a \<Longrightarrow> \<not> is_nan b \<Longrightarrow> num_lt a b = (amount_rank a < amount_rank b)"
  by (simp add: is_nan_def num_lt_def amount_rank_def float_lt_rank)

lemma num_eq_rank:
  "\<not> is_nan a \<Longrightarrow> \<not> is_nan b \<Longrightarrow> num_eq a b = (amount_rank a = amount_rank b)"
  by (simp add: is_nan_def num_eq_def amount_rank_def float_eq_rank)

lemma num_le_rank:
  "\<not> is_nan a \<Longrightarrow> \<not> is_nan b \<Longrightarrow> num_le a b = (amount_rank a \<le> amount_rank b)"
  by (auto simp: num_le_def num_lt_rank num_eq_rank)

lemma num_eq_nan: "is_nan a \<Longrightarrow> \<not> num_eq b a"
  by (cases "num_val b") (simp_all add: is_nan_def num_eq_def)

lemma sort_by_amount_sorted:
  assumes "\<forall>t \<in> set (transactions self). \<not> is_nan (amount t)"
  shows "sorted_wrt (\<lambda>a b. num_le (amount a) (amount b)) (transactions (sort_by_amount self))"
proof -
  let ?ys = "list_sort amount num_lt (transactions self)"
  have "sorted (map (\<lambda>t. amount_rank (amount t)) ?ys)"
    using sorted_list_sort [of "\<lambda>a. \<not> is_nan a" num_lt amount_rank "transactions self" amount]
      num_lt_rank assms by blast
  then have "sorted_wrt (\<lambda>a b. amount_rank (amount a) \<le> amount_rank (amount b)) ?ys"
    by (simp add: sorted_map)
  moreover have "\<forall>t \<in> set ?ys. \<not> is_nan (amount t)"
    using assms by (simp add: set_list_sort)
  ultimately have "sorted_wrt (\<lambda>a b. num_le (amount a) (amount b)) ?ys"
    by (rule_tac sorted_wrt_mono_rel [rotated]) (auto simp: num_le_rank)
  then show ?thesis by (simp add: sort_by_amount_def)
qed

lemma sort_by_amount_stable:
  assumes "\<forall>t \<in> set (transactions self). \<not> is_nan (amount t)"
  shows "filter (\<lambda>t. num_eq (amount t) a) (transactions (sort_by_amount self)) =
         filter (\<lambda>t. num_eq (amount t) a) (transactions self)"
proof (cases "is_nan a")
  case True
  then show ?thesis by (simp add: num_eq_nan)
next
  case False
  let ?xs = "transactions self"
  let ?ys = "list_sort amount num_lt ?xs"
  have ys: "\<forall>t \<in> set ?ys. \<not> is_nan (amount t)"
    using assms by (simp add: set_list_sort)
  have "filter (\<lambda>t. num_eq (amount t) a) ?ys = filter (\<lambda>t. amount_rank (amount t) = amount_rank a) ?ys"
    using ys False by (intro filter_cong) (auto simp: num_eq_rank)
  also have "\<dots> = filter (\<lambda>t. amount_rank (amount t) = amount_rank a) ?xs"
    using filter_list_sort [of "\<lambda>a. \<not> is_nan a" num_lt amount_rank ?xs amount "amount_rank a"]
      num_lt_rank assms by blast
  also have "\<dots> = filter (\<lambda>t. num_eq (amount t) a) ?xs"
    using assms False by (intro filter_cong) (auto simp: num_eq_rank)
  finally show ?thesis by (simp add: sort_by_amount_def)
qed

lemma sort_by_amount_idem:
  assumes "\<forall>t \<in> set (transactions self). \<not> is_nan (amount t)"
  shows "sort_by_amount (sort_by_amount self) = sort_by_amount self"
proof -
  let ?ys = "list_sort amount num_lt (transactions self)"
  have "sorted (map (\<lambda>t. amount_rank (amount t)) ?ys)"
    using sorted_list_sort [of "\<lambda>a. \<not> is_nan a" num_lt amount_rank "transactions self" amount]
      num_lt_rank assms by blast
  moreover have "\<forall>t \<in> set ?ys. \<not> is_nan (amount t)"
    using assms by (simp add: set_list_sort)
  ultimately have "list_sort amount num_lt ?ys = ?ys"
    using list_sort_sorted_id [of "\<lambda>a. \<not> is_nan a" num_lt amount_rank ?ys amount] num_lt_rank
    by blast
  then show ?thesis by (simp add: sort_by_amount_def)
qed

lemma sort_by_description_sorted:
  "sorted (map description (transactions (sort_by_description self)))"
  using sorted_list_sort [of "\<lambda>a. True" "(<)" "\<lambda>s. s" "transactions self" description]
  by (simp add: sort_by_description_def)

lemma sort_by_description_stable:
  "filter (\<lambda>t. description t = d) (transactions (sort_by_description self)) =
   filter (\<lambda>t. description t = d) (transactions self)"
  using filter_list_sort [of "\<lambda>a. True" "(<)" "\<lambda>s. s" "transactions self" description d]
  by (simp add: sort_by_description_def)

lemma sort_by_description_idem:
  "sort_by_description (sort_by_description self) = sort_by_description self"
proof -
  let ?ys = "list_sort description (<) (transactions self)"
  have "sorted (map description ?ys)"
    using sorted_list_sort [of "\<lambda>a. True" "(<)" "\<lambda>s. s" "transactions self" description] by simp
  then have "list_sort description (<) ?ys = ?ys"
    using list_sort_sorted_id [of "\<lambda>a. True" "(<)" "\<lambda>s. s" ?ys description] by simp
  then show ?thesis by (simp add: sort_by_description_def)
qed

text \<open>
  Claim C5, as stated, covers every collection. A float NaN is an instance of \<open>float\<close>,
  so a Transaction can hold it as amount; \<open><\<close> and \<open><=\<close> are false on it, and the sort
  leaves it in front of a smaller amount.
\<close>

theorem sort_by_amount_nan_counterexample:
  "transactions (sort_by_amount m_nan) = [t_nan, t3] \<and>
   \<not> sorted_wrt (\<lambda>a b. num_le (amount a) (amount b)) (transactions (sort_by_amount m_nan))"
  by (simp add: sort_by_amount_def m_nan_def list_sort_def t_nan_def t3_def num_lt_def num_le_def
      num_eq_def)

text \<open>
  Claim C5, amended. When no amount of the collection is NaN, \<open>sort_by_amount\<close> leaves the
  collection non-decreasing in the amount, keeps the order of the transactions whose
  amounts are equal, and changes nothing when applied again. \<open>sort_by_description\<close> does
  the same for the description, compared code point by code point, on every collection.
  Both sorts only reorder: the transactions are the same, as many times each.
\<close>

theorem sorts_order_stable_idempotent:
  "((\<forall>t \<in> set (transactions self). \<not> is_nan (amount t)) \<longrightarrow>
      sorted_wrt (\<lambda>a b. num_le (amount a) (amount b)) (transactions (sort_by_amount self)) \<and>
      (\<forall>a. filter (\<lambda>t. num_eq (amount t) a) (transactions (sort_by_amount self)) =
           filter (\<lambda>t. num_eq (amount t) a) (transactions self)) \<and>
      sort_by_amount (sort_by_amount self) = sort_by_amount self) \<and>
   mset (transactions (sort_by_amount self)) = mset (transactions self) \<and>
   sorted (map description (transactions (sort_by_description self))) \<and>
   (\<forall>d. filter (\<lambda>t. description t = d) (transactions (sort_by_description self)) =
        filter (\<lambda>t. description t = d) (transactions self)) \<and>
   sort_by_description (sort_by_description self) = sort_by_description self \<and>
   mset (transactions (sort_by_description self)) = mset (transactions self)"
  using sort_by_amount_sorted [where self = self] sort_by_amount_stable [where self = self]
    sort_by_amount_idem [where self = self] sort_by_description_sorted [where self = self]
    sort_by_description_stable [where self = self] sort_by_description_idem [where self = self]
  by (simp add: sort_by_amount_def sort_by_description_def mset_list_sort)

theorem sorts_order_stable_idempotent_witness:
  "\<not> is_nan (amount t1) \<and> \<not> is_nan (amount t2) \<and> \<not> is_nan (amount t3) \<and>
   transactions (sort_by_amount m0) = [t3, t2, t1] \<and>
   sorted_wrt (\<lambda>a b. num_le (amount a) (amount b)) (transactions (sort_by_amount m0)) \<and>
   sort_by_amount (sort_by_amount m0) = sort_by_amount m0 \<and>
   transactions (sort_by_description m0) = [t2, t1, t3] \<and>
   sorted (map description (transactions (sort_by_description m0)))"
proof -
  have nan: "\<forall>t \<in> set (transactions m0). \<not> is_nan (amount t)"
    by (simp add: m0_def t1_def t2_def t3_def is_nan_def)
  have a: "transactions (sort_by_amount m0) = [t3, t2, t1]"
    by (simp add: sort_by_amount_def m0_def list_sort_def t1_def t2_def t3_def num_lt_def)
  have d: "transactions (sort_by_description m0) = [t2, t1, t3]"
    by (simp add: sort_by_description_def m0_def list_sort_def t1_def t2_def t3_def ascii_def)
  have each: "\<not> is_nan (amount t1) \<and> \<not> is_nan (amount t2) \<and> \<not> is_nan (amount t3)"
    using nan by (simp add: m0_def)
  show ?thesis
    using sorts_order_stable_idempotent [of m0] nan a d each by simp
qed

subsection \<open>Searching by description\<close>








subsection \<open>The history\<close>

lemma ext_add_transaction_Other:
  "ext_add_transaction R (Other v) self = (Some (ValueError msg_add), self)"
  by (simp add: ext_add_transaction_def add_transaction_def)

lemma ext_add_transaction_Trans:
  "ext_add_transaction R (Trans t) self =
     (case Transaction_str R t of
        Inl e \<Rightarrow> (Some e, self\<lparr>transactions := transactions self @ [t],
                               now_calls := Suc (now_calls self)\<rparr>)
      | Inr s \<Rightarrow> (None, self\<lparr>transactions := transactions self @ [t],
                            now_calls := Suc (now_calls self),
                            history := history self @ [(now R (now_calls self), ascii ''ADD'', s)]\<rparr>))"
  by (simp add: ext_add_transaction_def add_transaction_def Let_def split: sum.splits)

text \<open>
  Claim C3. Given a value that is not a Transaction, \<open>add_transaction\<close> of the subclass
  raises and leaves the collection and the history as they were. When it returns, for a
  Transaction \<open>t\<close>, the collection has \<open>t\<close> at its end and the history has one entry more,
  at its end: the reading of the clock, "ADD" and \<open>str(t)\<close>. It returns whenever \<open>str(t)\<close>
  does.
\<close>

theorem ext_add_transaction_history:
  "ext_add_transaction R (Other v) self = (Some (ValueError msg_add), self) \<and>
   (ext_add_transaction R (Trans t) self = (None, self') \<longrightarrow>
      (\<exists>s. Transaction_str R t = Inr s \<and>
           history self' = history self @ [(now R (now_calls self), ascii ''ADD'', s)]) \<and>
      length (history self') = Suc (length (history self)) \<and>
      transactions self' = transactions self @ [t]) \<and>
   (\<forall>s. Transaction_str R t = Inr s \<longrightarrow> fst (ext_add_transaction R (Trans t) self) = None)"
  by (auto simp: ext_add_transaction_Other ext_add_transaction_Trans split: sum.splits)

lemma bit_length_5: "bit_length 5 = 3"
  by (simp add: bit_length.simps)

lemma float_of_int_5: "float_of_int 5 = Inr 5"
  by (simp add: float_of_int_def bit_length_5 Let_def)

lemma fixed2_5: "fixed2 5 = ascii ''5.00''"
  by (simp add: fixed2_def round_half_even_def Let_def digits.simps zero_pad_def ascii_def)

lemma format_2f_5: "py_format_2f (PyInt 5) = Inr (ascii ''5.00'')"
  by (simp add: float_of_int_5 bind_def fixed2_5)

lemma str_of_dt0: "py_str_of (VDatetime dt0) = Inr (ascii ''2024-03-01 14:30:00'')"
  by (simp add: str_datetime_def dt0_def zero_pad_def digits.simps ascii_def)

lemma str_of_1: "py_str_of (VNum (PyInt 1)) = Inr (ascii ''1'')"
  by (simp add: str_int_def digits.simps ascii_def)

lemma render_t1:
  "Transaction_str (cpython clock0) t1 =
     Inr ([8470] @ ascii ''1 | 2024-03-01 14:30:00 | 5.00 | invoice ref-22'')"
  by (simp add: Transaction_str_def cpython_def t1_def bind_def format_2f_5 str_of_dt0 str_of_1
      ascii_def del: py_format_2f.simps py_str_of.simps)

theorem ext_add_transaction_history_witness:
  "ext_add_transaction (cpython clock0) (Trans t1) e0 =
     (None, \<lparr>transactions = [t1, t2, t3, t1],
             history = [(dt0, ascii ''ADD'',
                         [8470] @ ascii ''1 | 2024-03-01 14:30:00 | 5.00 | invoice ref-22'')],
             now_calls = 1\<rparr>) \<and>
   ext_add_transaction (cpython clock0) (Other VNone) e0 = (Some (ValueError msg_add), e0)"
proof -
  have r: "fst (ext_add_transaction (cpython clock0) (Trans t1) e0) = None"
    using ext_add_transaction_history [of "cpython clock0" VNone e0 t1] render_t1 by simp
  have c: "clock0 0 = dt0" by (simp add: clock0_def dt0_def)
  show ?thesis
    using r ext_add_transaction_history [of "cpython clock0" VNone e0 t1
        "snd (ext_add_transaction (cpython clock0) (Trans t1) e0)"] render_t1 c
    by (cases "ext_add_transaction (cpython clock0) (Trans t1) e0")
       (auto simp: ext_add_transaction_Trans e0_def cpython_def)
qed

subsection \<open>Loading\<close>

lemma load_rows_good:
  assumes "\<forall>row \<in> set good. \<exists>t. row_transaction R row = Inr t"
  shows "load_rows R add_transaction (good @ rest) self =
         load_rows R add_transaction rest
           (self\<lparr>transactions := transactions self @ map (\<lambda>row. projr (row_transaction R row)) good\<rparr>)"
  using assms
proof (induction good arbitrary: self)
  case Nil
  then show ?case by simp
next
  case (Cons row good)
  then obtain t where t: "row_transaction R row = Inr t" by auto
  have "load_rows R add_transaction ((row # good) @ rest) self =
        load_rows R add_transaction (good @ rest) (self\<lparr>transactions := transactions self @ [t]\<rparr>)"
    by (simp add: t add_transaction_def)
  also have "\<dots> = load_rows R add_transaction rest
       (self\<lparr>transactions := transactions self @ [t] @ map (\<lambda>row. projr (row_transaction R row)) good\<rparr>)"
    using Cons.IH [of "self\<lparr>transactions := transactions self @ [t]\<rparr>"] Cons.prems by simp
  finally show ?case by (simp add: t)
qed

lemma load_rows_bad:
  "row_transaction R row = Inl e \<Longrightarrow> load_rows R add (row # rest) self = (Some e, self)"
  by simp

lemma load_rows_first_bad:
  assumes k: "k < length rows"
    and good: "\<forall>j<k. \<exists>t. row_transaction R (rows ! j) = Inr t"
    and bad: "row_transaction R (rows ! k) = Inl e"
  shows "load_rows R add_transaction rows self =
         (Some e, self\<lparr>transactions := transactions self @
                          map (\<lambda>row. projr (row_transaction R row)) (take k rows)\<rparr>)"
proof -
  have split: "rows = take k rows @ (rows ! k # drop (Suc k) rows)"
    using k by (simp add: id_take_nth_drop)
  have "\<forall>row \<in> set (take k rows). \<exists>t. row_transaction R row = Inr t"
    using good k by (auto simp: in_set_conv_nth)
  then have "load_rows R add_transaction (take k rows @ (rows ! k # drop (Suc k) rows)) self =
        load_rows R add_transaction (rows ! k # drop (Suc k) rows)
          (self\<lparr>transactions := transactions self @
                   map (\<lambda>row. projr (row_transaction R row)) (take k rows)\<rparr>)"
    by (rule load_rows_good)
  also have "\<dots> = (Some e, self\<lparr>transactions := transactions self @
                          map (\<lambda>row. projr (row_transaction R row)) (take k rows)\<rparr>)"
    using bad by (rule load_rows_bad)
  finally show ?thesis using split by simp
qed

lemma msg_not_found_carries_name: "\<exists>p q. msg_not_found filename = p @ filename @ q"
  unfolding msg_not_found_def by blast

text \<open>
  Claim C4. Loading from a name that the file system does not hold raises
  \<open>FileNotFoundError\<close> with a message that contains the name, and leaves the collection as
  it was. When the row of index \<open>k\<close> is the first from which no Transaction can be built
  (a lookup, a conversion or the validation raises), the load raises that exception and
  leaves the collection with the Transactions of the rows before \<open>k\<close> appended, in order,
  and nothing else. The rows are those of \<open>DictReader\<close>: the records after the header,
  without the empty ones.
\<close>

theorem load_from_csv_failures:
  "(fs filename = None \<longrightarrow>
      TransactionManager_load_from_csv R fs filename self =
        (Some (FileNotFoundError (msg_not_found filename)), self) \<and>
      (\<exists>p q. msg_not_found filename = p @ filename @ q)) \<and>
   (fs filename = Some text \<and>
    DictReader (split_lines (universal_newlines text)) = (rows, err) \<and>
    k < length rows \<and>
    (\<forall>j<k. \<exists>t. row_transaction R (rows ! j) = Inr t) \<and>
    row_transaction R (rows ! k) = Inl e \<longrightarrow>
      TransactionManager_load_from_csv R fs filename self =
        (Some (except_FileNotFoundError filename e),
         self\<lparr>transactions := transactions self @
                  map (\<lambda>row. projr (row_transaction R row)) (take k rows)\<rparr>))"
proof (intro conjI impI)
  assume "fs filename = None"
  then show "TransactionManager_load_from_csv R fs filename self =
        (Some (FileNotFoundError (msg_not_found filename)), self)"
    by (simp add: TransactionManager_load_from_csv_def load_from_csv_def)
next
  show "\<exists>p q. msg_not_found filename = p @ filename @ q"
    by (rule msg_not_found_carries_name)
next
  assume a: "fs filename = Some text \<and>
    DictReader (split_lines (universal_newlines text)) = (rows, err) \<and>
    k < length rows \<and>
    (\<forall>j<k. \<exists>t. row_transaction R (rows ! j) = Inr t) \<and>
    row_transaction R (rows ! k) = Inl e"
  then have "load_rows R add_transaction rows self =
         (Some e, self\<lparr>transactions := transactions self @
                          map (\<lambda>row. projr (row_transaction R row)) (take k rows)\<rparr>)"
    using load_rows_first_bad [of k rows R e self] by blast
  then show "TransactionManager_load_from_csv R fs filename self =
        (Some (except_FileNotFoundError filename e),
         self\<lparr>transactions := transactions self @
                  map (\<lambda>row. projr (row_transaction R row)) (take k rows)\<rparr>)"
    using a by (simp add: TransactionManager_load_from_csv_def load_from_csv_def)
qed

subsection \<open>Evaluation of the example file\<close>

lemmas csv_defs = csv_reader_def parse_reset_def parse_process_char_def start_field_def
  parse_add_char_def parse_save_field_def field_limit_def bind_def

lemmas col_defs = fieldnames_def col_id_def col_date_time_def col_amount_def col_description_def

lemma cols_distinct: "distinct [col_id, col_date_time, col_amount, col_description]"
  by (simp add: col_defs)

lemma row_dict_4:
  "row_dict fieldnames [a, b, c, d] =
     [VStr col_id \<mapsto> VStr a, VStr col_date_time \<mapsto> VStr b, VStr col_amount \<mapsto> VStr c,
      VStr col_description \<mapsto> VStr d]"
  by (simp add: row_dict_def fieldnames_def)

lemma getitem_row_dict_4:
  "getitem (row_dict fieldnames [a, b, c, d]) col_id = Inr (VStr a)"
  "getitem (row_dict fieldnames [a, b, c, d]) col_date_time = Inr (VStr b)"
  "getitem (row_dict fieldnames [a, b, c, d]) col_amount = Inr (VStr c)"
  "getitem (row_dict fieldnames [a, b, c, d]) col_description = Inr (VStr d)"
  using cols_distinct by (auto simp: row_dict_4 getitem_def)

lemma row_transaction_4:
  "row_transaction R (row_dict fieldnames [a, b, c, d]) =
     bind (int_of R (VStr a)) (\<lambda>i. bind (strptime R (VStr b)) (\<lambda>dt. bind (float_of R (VStr c)) (\<lambda>x.
       Transaction (VNum (PyInt i)) (VDatetime dt) (VNum (PyFloat x)) (VStr d))))"
  by (simp add: row_transaction_def getitem_row_dict_4 bind_def)

lemma Transaction_typed:
  "Transaction (VNum (PyInt i)) (VDatetime dt) (VNum a) (VStr d) =
     (if i < 0 then Inl (ValueError msg_id)
      else Inr \<lparr>id' = PyInt i, date_time = dt, amount = a, description = d\<rparr>)"
proof (cases "i < 0")
  case True
  then show ?thesis
    using Transaction_bad_id [of "VNum (PyInt i)" "VDatetime dt" "VNum a" "VStr d"]
    by (simp add: num_lt_def)
next
  case False
  then show ?thesis
    using Transaction_valid [of "VNum (PyInt i)" "VDatetime dt" "VNum a" "VStr d"]
    by (simp add: num_lt_def)
qed

lemma lines_text0:
  "split_lines (universal_newlines text0) =
     [join_fields fieldnames @ [10],
      ascii ''1,2024-03-01 14:30:00,5,invoice ref-22'' @ [10],
      ascii ''x,2024-03-01 14:30:00,5,bad'' @ [10],
      ascii ''3,2024-03-01 14:30:00,7.5,payment'' @ [10]]"
  by (simp add: text0_def col_defs join_append_def needs_quotes_def ascii_def)

lemma line_header:
  "parse_line parse_reset (join_fields fieldnames @ [10]) =
   Inr \<lparr>state = START_RECORD, fields' = fieldnames, field = []\<rparr>"
  by (simp add: csv_defs col_defs join_append_def needs_quotes_def)

lemma line1:
  "parse_line parse_reset (ascii ''1,2024-03-01 14:30:00,5,invoice ref-22'' @ [10]) =
   Inr \<lparr>state = START_RECORD,
        fields' = [ascii ''1'', ascii ''2024-03-01 14:30:00'', ascii ''5'', ascii ''invoice ref-22''],
        field = []\<rparr>"
  by (simp add: csv_defs ascii_def)

lemma line2:
  "parse_line parse_reset (ascii ''x,2024-03-01 14:30:00,5,bad'' @ [10]) =
   Inr \<lparr>state = START_RECORD,
        fields' = [ascii ''x'', ascii ''2024-03-01 14:30:00'', ascii ''5'', ascii ''bad''],
        field = []\<rparr>"
  by (simp add: csv_defs ascii_def)

lemma line3:
  "parse_line parse_reset (ascii ''3,2024-03-01 14:30:00,7.5,payment'' @ [10]) =
   Inr \<lparr>state = START_RECORD,
        fields' = [ascii ''3'', ascii ''2024-03-01 14:30:00'', ascii ''7.5'', ascii ''payment''],
        field = []\<rparr>"
  by (simp add: csv_defs ascii_def)

lemma parse_reset_sel: "field parse_reset = []" "state parse_reset = START_RECORD"
  by (simp_all add: parse_reset_def)

lemma DictReader_text0:
  "DictReader (split_lines (universal_newlines text0)) =
     ([row_dict fieldnames [ascii ''1'', ascii ''2024-03-01 14:30:00'', ascii ''5'', ascii ''invoice ref-22''],
       row_dict fieldnames [ascii ''x'', ascii ''2024-03-01 14:30:00'', ascii ''5'', ascii ''bad''],
       row_dict fieldnames [ascii ''3'', ascii ''2024-03-01 14:30:00'', ascii ''7.5'', ascii ''payment'']],
      None)"
  by (simp add: DictReader_def csv_reader_def lines_text0 line_header line1 line2 line3
      parse_reset_sel)

lemma int_of_text_1: "py_int (VStr (ascii ''1'')) = Inr 1"
  by (simp add: int_of_text_def strip_def is_space_def all_digits_def is_digit_def
      nat_of_digits_def ascii_def)

lemma int_of_text_x: "py_int (VStr (ascii ''x'')) =
    Inl (ValueError (ascii ''invalid literal for int() with base 10''))"
  by (simp add: int_of_text_def strip_def is_space_def all_digits_def is_digit_def ascii_def)

lemma float_of_text_5: "py_float (VStr (ascii ''5'')) = Inr (Finite 5)"
  by (simp add: float_of_text_def strip_def is_space_def is_digit_def nat_of_digits_def
      py_lower_def lower_cp_def ascii_def Let_def)

lemma strptime_dt0: "py_strptime (VStr (ascii ''2024-03-01 14:30:00'')) = Inr dt0"
  by (simp add: strptime_text_def match_format_def obind_def alts_Y_def alts_m_def alts_d_def
      alts_H_def alts_M_def alts_S_def between_def is_digit_def is_space_def spaces_def
      nat_of_digits_def days_in_month_def is_leap_def dt0_def ascii_def)

lemma row1_ok:
  "row_transaction (cpython clock)
     (row_dict fieldnames [ascii ''1'', ascii ''2024-03-01 14:30:00'', ascii ''5'', ascii ''invoice ref-22''])
   = Inr t_row1"
  by (simp add: row_transaction_4 cpython_def bind_def int_of_text_1 strptime_dt0 float_of_text_5
      Transaction_typed t_row1_def del: py_int.simps py_float.simps py_strptime.simps)

lemma row2_bad:
  "row_transaction (cpython clock)
     (row_dict fieldnames [ascii ''x'', ascii ''2024-03-01 14:30:00'', ascii ''5'', ascii ''bad''])
   = Inl (ValueError (ascii ''invalid literal for int() with base 10''))"
  by (simp add: row_transaction_4 cpython_def bind_def int_of_text_x del: py_int.simps)

theorem load_from_csv_failures_witness:
  "TransactionManager_load_from_csv (cpython clock0) fs0 name0 \<lparr>transactions = []\<rparr> =
     (Some (ValueError (ascii ''invalid literal for int() with base 10'')),
      \<lparr>transactions = [t_row1]\<rparr>) \<and>
   TransactionManager_load_from_csv (cpython clock0) fs0 (ascii ''none.csv'') \<lparr>transactions = []\<rparr> =
     (Some (FileNotFoundError (msg_not_found (ascii ''none.csv''))), \<lparr>transactions = []\<rparr>)"
proof -
  let ?rows = "fst (DictReader (split_lines (universal_newlines text0)))"
  have fs: "fs0 name0 = Some text0" by (simp add: fs0_def)
  have nf: "fs0 (ascii ''none.csv'') = None" by (simp add: fs0_def name0_def ascii_def)
  have dr: "DictReader (split_lines (universal_newlines text0)) = (?rows, None)"
    by (simp add: DictReader_text0)
  have k: "1 < length ?rows" by (simp add: DictReader_text0)
  have good: "\<forall>j<1. \<exists>t. row_transaction (cpython clock0) (?rows ! j) = Inr t"
    by (simp add: DictReader_text0 row1_ok)
  have bad: "row_transaction (cpython clock0) (?rows ! 1) =
      Inl (ValueError (ascii ''invalid literal for int() with base 10''))"
    by (simp add: DictReader_text0 row2_bad)
  have tk: "map (\<lambda>row. projr (row_transaction (cpython clock0) row)) (take 1 ?rows) = [t_row1]"
    by (simp add: DictReader_text0 row1_ok)
  show ?thesis
    using load_from_csv_failures [of fs0 name0 "cpython clock0" "\<lparr>transactions = []\<rparr>" text0 ?rows
        None 1 "ValueError (ascii ''invalid literal for int() with base 10'')"]
      load_from_csv_failures [of fs0 "ascii ''none.csv''" "cpython clock0" "\<lparr>transactions = []\<rparr>"]
      fs nf dr k good bad tk
    by simp
qed

subsection \<open>Loading into the manager with a history\<close>

lemma load_rows_ext:
  "load_rows R (ext_add_transaction R) rows self = (None, self') \<Longrightarrow>
     history self' = history self @
       map (\<lambda>(n, row). loaded_entry R n row) (zip [now_calls self ..< now_calls self + length rows] rows) \<and>
     transactions self' = transactions self @ map (\<lambda>row. projr (row_transaction R row)) rows \<and>
     now_calls self' = now_calls self + length rows"
proof (induction rows arbitrary: self)
  case Nil
  then show ?case by simp
next
  case (Cons row rows)
  from Cons.prems obtain t where t: "row_transaction R row = Inr t"
    by (cases "row_transaction R row") auto
  from Cons.prems t obtain s where s: "Transaction_str R t = Inr s"
    by (cases "Transaction_str R t") (auto simp: ext_add_transaction_Trans)
  let ?self1 = "self\<lparr>transactions := transactions self @ [t],
                      now_calls := Suc (now_calls self),
                      history := history self @ [(now R (now_calls self), ascii ''ADD'', s)]\<rparr>"
  have step: "load_rows R (ext_add_transaction R) rows ?self1 = (None, self')"
    using Cons.prems by (simp add: t s ext_add_transaction_Trans)
  have upt: "[now_calls self ..< now_calls self + length (row # rows)] =
             now_calls self # [Suc (now_calls self) ..< Suc (now_calls self) + length rows]"
    by (subst upt_rec) simp
  have entry: "loaded_entry R (now_calls self) row = (now R (now_calls self), ascii ''ADD'', s)"
    by (simp add: loaded_entry_def t s)
  show ?case
    using Cons.IH [OF step] unfolding upt by (simp add: t entry)
qed

lemma load_rows_ext_ok:
  "\<forall>row \<in> set rows. \<exists>t s. row_transaction R row = Inr t \<and> Transaction_str R t = Inr s \<Longrightarrow>
   fst (load_rows R (ext_add_transaction R) rows self) = None"
proof (induction rows arbitrary: self)
  case Nil
  then show ?case by simp
next
  case (Cons row rows)
  then obtain t s where "row_transaction R row = Inr t" "Transaction_str R t = Inr s" by auto
  then show ?case using Cons by (simp add: ext_add_transaction_Trans)
qed

lemma ADD_entries:
  "\<forall>entry \<in> set (map (\<lambda>(n, row). loaded_entry R n row) (zip ns rows)). fst (snd entry) = ascii ''ADD''"
  by (auto simp: loaded_entry_def)

text \<open>
  Claim C10. \<open>load_from_csv\<close> on an ExtendedTransactionManager calls the overriding
  \<open>add_transaction\<close>. When the load returns, the history has one entry more for each row
  of the file, in the order of the rows, each with the action "ADD" and the text of the
  Transaction of its row; and the load returns when every row gives a Transaction whose
  text \<open>str\<close> can build and the reader raises nothing.
\<close>

theorem ext_load_from_csv_history:
  "fs filename = Some text \<and> DictReader (split_lines (universal_newlines text)) = (rows, err) \<longrightarrow>
     ((\<forall>row \<in> set rows. \<exists>t s. row_transaction R row = Inr t \<and> Transaction_str R t = Inr s) \<and>
      err = None \<longrightarrow>
        fst (ExtendedTransactionManager_load_from_csv R fs filename self) = None) \<and>
     (ExtendedTransactionManager_load_from_csv R fs filename self = (None, self') \<longrightarrow>
        history self' = history self @
          map (\<lambda>(n, row). loaded_entry R n row)
            (zip [now_calls self ..< now_calls self + length rows] rows) \<and>
        length (history self') = length (history self) + length rows \<and>
        (\<forall>entry \<in> set (drop (length (history self)) (history self')). fst (snd entry) = ascii ''ADD'') \<and>
        transactions self' = transactions self @ map (\<lambda>row. projr (row_transaction R row)) rows)"
proof (intro impI conjI)
  assume a: "fs filename = Some text \<and> DictReader (split_lines (universal_newlines text)) = (rows, err)"
  assume "(\<forall>row \<in> set rows. \<exists>t s. row_transaction R row = Inr t \<and> Transaction_str R t = Inr s) \<and>
      err = None"
  then have "fst (load_rows R (ext_add_transaction R) rows self) = None" and "err = None"
    using load_rows_ext_ok [of rows R self] by blast+
  then show "fst (ExtendedTransactionManager_load_from_csv R fs filename self) = None"
    using a
    by (cases "load_rows R (ext_add_transaction R) rows self")
       (simp add: ExtendedTransactionManager_load_from_csv_def load_from_csv_def)
next
  assume a: "fs filename = Some text \<and> DictReader (split_lines (universal_newlines text)) = (rows, err)"
  assume l: "ExtendedTransactionManager_load_from_csv R fs filename self = (None, self')"
  have "load_rows R (ext_add_transaction R) rows self = (None, self')"
    using a l
    by (cases "load_rows R (ext_add_transaction R) rows self")
       (auto simp: ExtendedTransactionManager_load_from_csv_def load_from_csv_def
          split: option.splits)
  note r = load_rows_ext [OF this]
  show h: "history self' = history self @
          map (\<lambda>(n, row). loaded_entry R n row)
            (zip [now_calls self ..< now_calls self + length rows] rows)"
    using r by simp
  show "length (history self') = length (history self) + length rows"
    using h by simp
  show "\<forall>entry \<in> set (drop (length (history self)) (history self')). fst (snd entry) = ascii ''ADD''"
    using ADD_entries [of R "[now_calls self ..< now_calls self + length rows]" rows]
    unfolding h by simp
  show "transactions self' = transactions self @ map (\<lambda>row. projr (row_transaction R row)) rows"
    using r by simp
qed

lemma lines_text_ok:
  "split_lines (universal_newlines text_ok) =
     [join_fields fieldnames @ [10],
      ascii ''1,2024-03-01 14:30:00,5,invoice ref-22'' @ [10],
      ascii ''3,2024-03-01 14:30:00,7.5,payment'' @ [10]]"
  by (simp add: text_ok_def col_defs join_append_def needs_quotes_def ascii_def)

lemma DictReader_text_ok:
  "DictReader (split_lines (universal_newlines text_ok)) =
     ([row_dict fieldnames [ascii ''1'', ascii ''2024-03-01 14:30:00'', ascii ''5'', ascii ''invoice ref-22''],
       row_dict fieldnames [ascii ''3'', ascii ''2024-03-01 14:30:00'', ascii ''7.5'', ascii ''payment'']],
      None)"
  by (simp add: DictReader_def csv_reader_def lines_text_ok line_header line1 line3 parse_reset_sel)

lemma int_of_text_3: "py_int (VStr (ascii ''3'')) = Inr 3"
  by (simp add: int_of_text_def strip_def is_space_def all_digits_def is_digit_def
      nat_of_digits_def ascii_def)

lemma float_of_text_7_5: "py_float (VStr (ascii ''7.5'')) = Inr (Finite (15 / 2))"
  by (simp add: float_of_text_def strip_def is_space_def is_digit_def nat_of_digits_def
      py_lower_def lower_cp_def ascii_def Let_def)

lemma row3_ok:
  "row_transaction (cpython clock)
     (row_dict fieldnames [ascii ''3'', ascii ''2024-03-01 14:30:00'', ascii ''7.5'', ascii ''payment''])
   = Inr t_row3"
  by (simp add: row_transaction_4 cpython_def bind_def int_of_text_3 strptime_dt0 float_of_text_7_5
      Transaction_typed t_row3_def del: py_int.simps py_float.simps py_strptime.simps)

lemma fixed2_7_5: "fixed2 (15 / 2) = ascii ''7.50''"
  by (simp add: fixed2_def round_half_even_def Let_def digits.simps zero_pad_def ascii_def)

lemma str_of_3: "py_str_of (VNum (PyInt 3)) = Inr (ascii ''3'')"
  by (simp add: str_int_def digits.simps ascii_def)

lemma render_t_row1:
  "Transaction_str (cpython clock) t_row1 =
     Inr ([8470] @ ascii ''1 | 2024-03-01 14:30:00 | 5.00 | invoice ref-22'')"
  by (simp add: Transaction_str_def cpython_def t_row1_def bind_def fixed2_5 str_of_dt0 str_of_1
      ascii_def del: py_str_of.simps)

lemma render_t_row3:
  "Transaction_str (cpython clock) t_row3 =
     Inr ([8470] @ ascii ''3 | 2024-03-01 14:30:00 | 7.50 | payment'')"
  by (simp add: Transaction_str_def cpython_def t_row3_def bind_def fixed2_7_5 str_of_dt0 str_of_3
      ascii_def del: py_str_of.simps)

theorem ext_load_from_csv_history_witness:
  "fst (ExtendedTransactionManager_load_from_csv (cpython clock0) [name0 \<mapsto> text_ok] name0
          \<lparr>transactions = [], history = [], now_calls = 0\<rparr>) = None \<and>
   history (snd (ExtendedTransactionManager_load_from_csv (cpython clock0) [name0 \<mapsto> text_ok] name0
          \<lparr>transactions = [], history = [], now_calls = 0\<rparr>)) =
     [(dt0, ascii ''ADD'', [8470] @ ascii ''1 | 2024-03-01 14:30:00 | 5.00 | invoice ref-22''),
      (dt0\<lparr>second := 1\<rparr>, ascii ''ADD'', [8470] @ ascii ''3 | 2024-03-01 14:30:00 | 7.50 | payment'')] \<and>
   transactions (snd (ExtendedTransactionManager_load_from_csv (cpython clock0) [name0 \<mapsto> text_ok] name0
          \<lparr>transactions = [], history = [], now_calls = 0\<rparr>)) = [t_row1, t_row3]"
proof -
  let ?R = "cpython clock0"
  let ?self = "\<lparr>transactions = [], history = [], now_calls = 0\<rparr>"
  let ?L = "ExtendedTransactionManager_load_from_csv ?R [name0 \<mapsto> text_ok] name0 ?self"
  let ?rows = "fst (DictReader (split_lines (universal_newlines text_ok)))"
  have dr: "DictReader (split_lines (universal_newlines text_ok)) = (?rows, None)"
    by (simp add: DictReader_text_ok)
  have ok: "\<forall>row \<in> set ?rows. \<exists>t s. row_transaction ?R row = Inr t \<and> Transaction_str ?R t = Inr s"
    by (simp add: DictReader_text_ok row1_ok row3_ok render_t_row1 render_t_row3)
  note inst = ext_load_from_csv_history [of "[name0 \<mapsto> text_ok]" name0 text_ok ?rows None ?R ?self "snd ?L"]
  have f: "fst ?L = None" using inst dr ok by simp
  then have L: "?L = (None, snd ?L)" by (cases ?L) simp
  have c: "now ?R 0 = dt0" "now ?R (Suc 0) = dt0\<lparr>second := 1\<rparr>"
    by (simp_all add: cpython_def clock0_def dt0_def)
  have e: "map (\<lambda>(n, row). loaded_entry ?R n row) (zip [0 ..< 0 + length ?rows] ?rows) =
     [(dt0, ascii ''ADD'', [8470] @ ascii ''1 | 2024-03-01 14:30:00 | 5.00 | invoice ref-22''),
      (dt0\<lparr>second := 1\<rparr>, ascii ''ADD'', [8470] @ ascii ''3 | 2024-03-01 14:30:00 | 7.50 | payment'')]"
    using c by (simp add: DictReader_text_ok loaded_entry_def row1_ok row3_ok render_t_row1
        render_t_row3 upt_rec)
  have t: "map (\<lambda>row. projr (row_transaction ?R row)) ?rows = [t_row1, t_row3]"
    by (simp add: DictReader_text_ok row1_ok row3_ok)
  show ?thesis
    using inst dr L f e t by simp
qed

subsection \<open>Saving and loading back\<close>

lemma strftime_dt0: "py_strftime dt0 = Inr (ascii ''2024-03-01 14:30:00'')"
  by (simp add: py_strftime_def dt0_def zero_pad_def digits.simps ascii_def)

lemma str_of_5: "py_str_of (VNum (PyInt 5)) = Inr (ascii ''5'')"
  by (simp add: str_int_def digits.simps ascii_def)

lemma save_row_t_cr:
  "save_row (cpython clock) t_cr =
     Inr (ascii ''1,2024-03-01 14:30:00,5,'' @ [34, 97, 13, 98, 34] @ [13, 10])"
  by (simp add: save_row_def writerow_def cpython_def t_cr_def bind_def strftime_dt0 str_of_1
      str_of_5 record_line_def join_append_def needs_quotes_def ascii_def del: py_str_of.simps)

lemma save_t_cr:
  "save_to_csv (cpython clock) Map.empty name0 \<lparr>transactions = [t_cr]\<rparr> =
     (None, [name0 \<mapsto> text_cr])"
  by (simp add: save_to_csv_def save_row_t_cr text_cr_def record_line_def col_defs)

lemma lines_text_cr:
  "split_lines (universal_newlines text_cr) =
     [join_fields fieldnames @ [10],
      ascii ''1,2024-03-01 14:30:00,5,'' @ [34, 97, 10],
      [98, 34, 10]]"
  by (simp add: text_cr_def col_defs join_append_def needs_quotes_def ascii_def)

lemma line_cr_1:
  "parse_line parse_reset (ascii ''1,2024-03-01 14:30:00,5,'' @ [34, 97, 10]) =
   Inr \<lparr>state = IN_QUOTED_FIELD,
        fields' = [ascii ''1'', ascii ''2024-03-01 14:30:00'', ascii ''5''],
        field = [97, 10]\<rparr>"
  by (simp add: csv_defs ascii_def)

lemma line_cr_2:
  "parse_line \<lparr>state = IN_QUOTED_FIELD,
        fields' = [ascii ''1'', ascii ''2024-03-01 14:30:00'', ascii ''5''],
        field = [97, 10]\<rparr> [98, 34, 10] =
   Inr \<lparr>state = START_RECORD,
        fields' = [ascii ''1'', ascii ''2024-03-01 14:30:00'', ascii ''5'', [97, 10, 98]],
        field = []\<rparr>"
  by (simp add: csv_defs)

lemma DictReader_text_cr:
  "DictReader (split_lines (universal_newlines text_cr)) =
     ([row_dict fieldnames [ascii ''1'', ascii ''2024-03-01 14:30:00'', ascii ''5'', [97, 10, 98]]],
      None)"
  by (simp add: DictReader_def csv_reader_def lines_text_cr line_header line_cr_1 line_cr_2
      parse_reset_sel del: parse_line.simps)

lemma row_cr:
  "row_transaction (cpython clock)
     (row_dict fieldnames [ascii ''1'', ascii ''2024-03-01 14:30:00'', ascii ''5'', [97, 10, 98]])
   = Inr \<lparr>id' = PyInt 1, date_time = dt0, amount = PyFloat (Finite 5), description = [97, 10, 98]\<rparr>"
  by (simp add: row_transaction_4 cpython_def bind_def int_of_text_1 strptime_dt0 float_of_text_5
      Transaction_typed del: py_int.simps py_float.simps py_strptime.simps)

text \<open>
  Claim C2 says that saving a collection and loading the file back returns the
  descriptions as they were. \<open>save_to_csv\<close> opens the file with \<open>newline=''\<close>, so a
  carriage return inside a description reaches the file, in a quoted field;
  \<open>load_from_csv\<close> opens it without, so the carriage return is a line feed by the time the
  reader sees the field. The Transaction with the description "a\r b" without the space,
  saved and loaded, has the description "a\n b" without the space.
\<close>

theorem save_then_load_changes_carriage_return:
  "save_to_csv (cpython clock0) Map.empty name0 \<lparr>transactions = [t_cr]\<rparr> =
     (None, [name0 \<mapsto> text_cr]) \<and>
   TransactionManager_load_from_csv (cpython clock0) [name0 \<mapsto> text_cr] name0 \<lparr>transactions = []\<rparr> =
     (None, \<lparr>transactions =
         [\<lparr>id' = PyInt 1, date_time = dt0, amount = PyFloat (Finite 5), description = [97, 10, 98]\<rparr>]\<rparr>) \<and>
   description t_cr = [97, 13, 98]"
proof -
  have "TransactionManager_load_from_csv (cpython clock0) [name0 \<mapsto> text_cr] name0 \<lparr>transactions = []\<rparr> =
     (None, \<lparr>transactions =
         [\<lparr>id' = PyInt 1, date_time = dt0, amount = PyFloat (Finite 5), description = [97, 10, 98]\<rparr>]\<rparr>)"
    by (simp add: TransactionManager_load_from_csv_def load_from_csv_def DictReader_text_cr
        row_cr add_transaction_def)
  moreover have "description t_cr = [97, 13, 98]"
    by (simp add: t_cr_def)
  ultimately show ?thesis
    using save_t_cr [of clock0] by blast
qed

end
